theory Spec2Isabelle
  imports Main "HOL-Library.Char_ord" "HOL-Library.List_Lexorder"
begin

section \<open>JavaScript values\<close>

text \<open>
  The backend (\<^verbatim>\<open>src/backend/server.js\<close>) handles values that come out of
  \<^verbatim>\<open>JSON.parse\<close> or out of the request parser. They are modelled by one datatype.
  A string is the list of the bytes of its UTF-8 form. A number is carried by its canonical
  rendering, the text that \<^verbatim>\<open>String(n)\<close> yields, which is all the backend ever does
  with a number besides testing it for truthiness. An object is an association list; the
  value of property \<open>k\<close> is \<open>map_of kvs k\<close>. Objects with an own \<^verbatim>\<open>toString\<close> or
  \<^verbatim>\<open>valueOf\<close> property are outside the model.
\<close>

datatype json =
    JUndefined
  | JNull
  | JBool bool
  | JNum string
  | JStr string
  | JArr "json list"
  | JObj "(string \<times> json) list"

datatype error =
    UpstreamError json nat string
  | FetchError string
  | TypeError
  | UnknownError

text \<open>
  \<open>UpstreamError detail httpStatus raw\<close> is the \<^verbatim>\<open>Error\<close> that \<^verbatim>\<open>sn\<close> builds from
  a response: \<open>detail\<close> is the value whose string form (or \<^verbatim>\<open>JSON.stringify\<close>) becomes the
  message. \<open>FetchError\<close> is a rejection of \<^verbatim>\<open>fetch\<close> itself (connection reset, or the
  abort that the timeout triggers). \<open>TypeError\<close> is what the runtime throws on a property
  read from \<^verbatim>\<open>null\<close>/\<^verbatim>\<open>undefined\<close>, on iterating a value that is not iterable and
  on calling a method that does not exist.
\<close>

fun truthy :: "json \<Rightarrow> bool" where
  "truthy JUndefined = False"
| "truthy JNull = False"
| "truthy (JBool b) = b"
| "truthy (JNum n) = (n \<noteq> ''0'' \<and> n \<noteq> ''NaN'')"
| "truthy (JStr s) = (s \<noteq> [])"
| "truthy (JArr xs) = True"
| "truthy (JObj kvs) = True"

definition js_or :: "json \<Rightarrow> json \<Rightarrow> json" where
  "js_or a b = (if truthy a then a else b)"

definition nullish :: "json \<Rightarrow> bool" where
  "nullish x = (x = JNull \<or> x = JUndefined)"

text \<open>Own properties. The backend never reads an index or \<^verbatim>\<open>length\<close> by name, so an
  array, like a primitive, answers \<^verbatim>\<open>undefined\<close> to every property name it uses.\<close>

fun own :: "json \<Rightarrow> string \<Rightarrow> json option" where
  "own (JObj kvs) k = map_of kvs k"
| "own x k = None"

definition field :: "json \<Rightarrow> string \<Rightarrow> json" where
  "field x k = (case own x k of Some v \<Rightarrow> v | None \<Rightarrow> JUndefined)"

text \<open>\<^verbatim>\<open>x.k\<close> throws on \<^verbatim>\<open>null\<close> and \<^verbatim>\<open>undefined\<close>; \<^verbatim>\<open>x?.k\<close> does not.\<close>

definition get :: "json \<Rightarrow> string \<Rightarrow> error + json" where
  "get x k = (if nullish x then Inl TypeError else Inr (field x k))"

definition oget :: "json \<Rightarrow> string \<Rightarrow> json" where
  "oget x k = (if nullish x then JUndefined else field x k)"

definition bindE :: "error + 'a \<Rightarrow> ('a \<Rightarrow> error + 'b) \<Rightarrow> error + 'b" where
  "bindE m f = (case m of Inl e \<Rightarrow> Inl e | Inr x \<Rightarrow> f x)"

fun join :: "string \<Rightarrow> string list \<Rightarrow> string" where
  "join sep [] = []"
| "join sep [x] = x"
| "join sep (x # y # ys) = x @ sep @ join sep (y # ys)"

text \<open>\<^verbatim>\<open>String(x)\<close>, which is also what a template literal applies to its holes.\<close>

fun js_String :: "json \<Rightarrow> string" where
  "js_String JUndefined = ''undefined''"
| "js_String JNull = ''null''"
| "js_String (JBool b) = (if b then ''true'' else ''false'')"
| "js_String (JNum n) = n"
| "js_String (JStr s) = s"
| "js_String (JArr xs) =
     join '','' (map (\<lambda>x. if x = JNull \<or> x = JUndefined then [] else js_String x) xs)"
| "js_String (JObj kvs) = ''[object Object]''"

text \<open>
  \<^verbatim>\<open>trim\<close> removes the white space and line terminators of the language from both
  ends: the code points 9 to 13, 32, U+00A0, U+1680, U+2000 to U+200A, U+2028, U+2029,
  U+202F, U+205F, U+3000 and U+FEFF, listed here by their UTF-8 bytes.
\<close>

definition white_space :: "string list" where
  "white_space =
     [[CHR 0x09], [CHR 0x0A], [CHR 0x0B], [CHR 0x0C], [CHR 0x0D], [CHR 0x20],
      [CHR 0xC2, CHR 0xA0], [CHR 0xE1, CHR 0x9A, CHR 0x80],
      [CHR 0xE2, CHR 0x80, CHR 0x80], [CHR 0xE2, CHR 0x80, CHR 0x81],
      [CHR 0xE2, CHR 0x80, CHR 0x82], [CHR 0xE2, CHR 0x80, CHR 0x83],
      [CHR 0xE2, CHR 0x80, CHR 0x84], [CHR 0xE2, CHR 0x80, CHR 0x85],
      [CHR 0xE2, CHR 0x80, CHR 0x86], [CHR 0xE2, CHR 0x80, CHR 0x87],
      [CHR 0xE2, CHR 0x80, CHR 0x88], [CHR 0xE2, CHR 0x80, CHR 0x89],
      [CHR 0xE2, CHR 0x80, CHR 0x8A], [CHR 0xE2, CHR 0x80, CHR 0xA8],
      [CHR 0xE2, CHR 0x80, CHR 0xA9], [CHR 0xE2, CHR 0x80, CHR 0xAF],
      [CHR 0xE2, CHR 0x81, CHR 0x9F], [CHR 0xE3, CHR 0x80, CHR 0x80],
      [CHR 0xEF, CHR 0xBB, CHR 0xBF]]"

definition starts_with :: "string \<Rightarrow> string \<Rightarrow> bool" where
  "starts_with s p = (p \<noteq> [] \<and> take (length p) s = p)"

function strip :: "string list \<Rightarrow> string \<Rightarrow> string" where
  "strip ps s =
     (case find (starts_with s) ps of
        Some p \<Rightarrow> strip ps (drop (length p) s)
      | None \<Rightarrow> s)"
  by pat_completeness auto
termination
proof (relation "measure (\<lambda>(ps, s). length s)")
  fix ps s p
  assume "find (starts_with s) ps = Some p"
  then have "starts_with s p" by (auto simp: find_Some_iff)
  then have "p \<noteq> []" "s \<noteq> []" by (auto simp: starts_with_def)
  then show "((ps, drop (length p) s), (ps, s)) \<in> measure (\<lambda>(ps, s). length s)" by simp
qed simp

declare strip.simps [simp del]

definition trim :: "string \<Rightarrow> string" where
  "trim s = rev (strip (map rev white_space) (rev (strip white_space s)))"

definition lower_char :: "char \<Rightarrow> char" where
  "lower_char c =
     (if CHR ''A'' \<le> c \<and> c \<le> CHR ''Z'' then char_of (of_char c + (32::nat)) else c)"

definition upper_char :: "char \<Rightarrow> char" where
  "upper_char c =
     (if CHR ''a'' \<le> c \<and> c \<le> CHR ''z'' then char_of (of_char c - (32::nat)) else c)"

text \<open>
  \<^verbatim>\<open>toLowerCase\<close>. The backend only ever compares its result with literals made of ASCII
  letters and the underscore. The code points whose lower case is an ASCII letter are the
  ASCII capitals and the Kelvin sign U+212A (bytes E2 84 AA), which becomes \<^verbatim>\<open>k\<close>; every
  other code point outside ASCII lowers to code points outside ASCII. The model maps the
  capitals and the Kelvin sign and leaves every other byte as it is, so each of these
  comparisons comes out as in the runtime.
\<close>

fun toLowerCase :: "string \<Rightarrow> string" where
  "toLowerCase (a # b # c # s) =
     (if a = CHR 0xE2 \<and> b = CHR 0x84 \<and> c = CHR 0xAA then CHR ''k'' # toLowerCase s
      else lower_char a # toLowerCase (b # c # s))"
| "toLowerCase (a # s) = lower_char a # toLowerCase s"
| "toLowerCase [] = []"

text \<open>Upper case of the ASCII letters; it stands for \<^verbatim>\<open>toUpperCase\<close> in the scenarios.\<close>

definition ascii_upper :: "string \<Rightarrow> string" where
  "ascii_upper s = map upper_char s"

fun dec :: "nat \<Rightarrow> string" where
  "dec n = (if n < 10 then [char_of (48 + n)] else dec (n div 10) @ [char_of (48 + n mod 10)])"

declare dec.simps [simp del]

section \<open>The upstream and the state of the process\<close>

text \<open>
  \<^verbatim>\<open>fetch\<close> is the only way out of the process. The upstream is a deterministic
  oracle: its answer to a request is a function of all requests made so far, the
  current one last. A response carries its body text together with what
  \<^verbatim>\<open>JSON.parse\<close> makes of it (\<open>None\<close> when it throws). \<open>elapsed\<close> is the time in
  milliseconds that the clock advances while a request is in flight.
  \<open>localeCompare\<close> and \<open>toUpperCase\<close> are the string methods of these names: a
  collation and a case mapping that come with the runtime and its Unicode data, and are
  parameters here.
\<close>

record creds =
  cr_instance :: string
  cr_username :: string
  cr_password :: string

record request =
  rq_url :: string
  rq_method :: string
  rq_auth :: "string \<times> string"
  rq_body :: "json option"

record response =
  rs_status :: nat
  rs_statusText :: string
  rs_text :: string
  rs_parsed :: "json option"

datatype outcome = Rejected string | Responded response

record config =
  SN_INSTANCE :: string
  SN_USERNAME :: string
  SN_PASSWORD :: string
  USE_ADMIN_FOR_ALL :: string

record env =
  cfg :: config
  upstream :: "request list \<Rightarrow> outcome"
  elapsed :: "request list \<Rightarrow> nat"
  localeCompare :: "string \<Rightarrow> string \<Rightarrow> int"
  toUpperCase :: "string \<Rightarrow> string"

record cache_entry =
  ce_name :: json
  ce_exp :: nat

record session =
  ss_user :: json
  ss_via :: string
  ss_creds :: creds
  ss_userSysId :: json
  ss_groups :: json

record world =
  calls :: "request list"
  clock :: nat
  nameCache :: "string \<rightharpoonup> cache_entry"
  sessions :: "string \<rightharpoonup> session"

definition adminCreds :: "env \<Rightarrow> creds" where
  "adminCreds E = \<lparr>cr_instance = SN_INSTANCE (cfg E), cr_username = SN_USERNAME (cfg E),
                   cr_password = SN_PASSWORD (cfg E)\<rparr>"

section \<open>The upstream client \<^verbatim>\<open>sn\<close>\<close>

datatype sn_value = Data json | Raw response

definition res_ok :: "response \<Rightarrow> bool" where
  "res_ok res = (200 \<le> rs_status res \<and> rs_status res \<le> 299)"

definition res_data :: "response \<Rightarrow> json" where
  "res_data res =
     (if rs_text res = [] then JObj []
      else (case rs_parsed res of Some d \<Rightarrow> d | None \<Rightarrow> JObj []))"

definition res_detail :: "response \<Rightarrow> json" where
  "res_detail res =
     (let data = res_data res in
      js_or (oget (oget data ''error'') ''detail'')
     (js_or (oget (oget data ''error'') ''message'')
     (js_or (oget data ''error'')
     (js_or (JStr (rs_text res))
            (JStr (''HTTP '' @ dec (rs_status res) @ '' '' @ rs_statusText res))))))"

text \<open>The test \<^verbatim>\<open>res.ok && data?.status !== 'failure' && !data?.error\<close>.\<close>

definition accepted :: "response \<Rightarrow> bool" where
  "accepted res =
     (res_ok res \<and> oget (res_data res) ''status'' \<noteq> JStr ''failure''
      \<and> \<not> truthy (oget (res_data res) ''error''))"

definition mk_request :: "env \<Rightarrow> creds \<Rightarrow> string \<Rightarrow> string \<Rightarrow> json \<Rightarrow> request" where
  "mk_request E using method pathWithQuery body =
     \<lparr>rq_url = ''https://'' @ SN_INSTANCE (cfg E) @ pathWithQuery,
      rq_method = method,
      rq_auth = (cr_username using, cr_password using),
      rq_body = (if truthy body then Some body else None)\<rparr>"

definition do_fetch :: "env \<Rightarrow> request \<Rightarrow> world \<Rightarrow> outcome \<times> world" where
  "do_fetch E rq w =
     (let h = calls w @ [rq]
      in (upstream E h, w\<lparr>calls := h, clock := clock w + elapsed E h\<rparr>))"

definition backoff :: "nat \<Rightarrow> world \<Rightarrow> world" where
  "backoff attempt w = w\<lparr>clock := clock w + 100 * 2 ^ attempt\<rparr>"

text \<open>
  The loop of \<^verbatim>\<open>sn\<close>, one call of \<open>sn_loop\<close> per test of the \<^verbatim>\<open>while\<close> condition;
  \<open>attempt\<close> and \<open>lastErr\<close> are the loop's variables. The \<^verbatim>\<open>throw err\<close> that reports a
  failed response stands inside the \<^verbatim>\<open>try\<close> block, so the \<^verbatim>\<open>catch\<close> clause of the
  same statement receives it: \<open>sn_catch\<close> is that clause, entered both for a rejected
  \<^verbatim>\<open>fetch\<close> and for the error thrown on a failed response.
\<close>

function sn_loop ::
  "env \<Rightarrow> creds \<Rightarrow> string \<Rightarrow> string \<Rightarrow> json \<Rightarrow> bool \<Rightarrow> nat \<Rightarrow> nat \<Rightarrow> error option \<Rightarrow> world
     \<Rightarrow> (error + sn_value) \<times> world" where
  "sn_loop E using method pathWithQuery body returnRaw retries attempt lastErr w =
     (if attempt \<le> retries then
        (case do_fetch E (mk_request E using method pathWithQuery body) w of
           (Rejected msg, w1) \<Rightarrow>
             (if attempt < retries
              then sn_loop E using method pathWithQuery body returnRaw retries (attempt + 1)
                     (Some (FetchError msg)) (backoff (attempt + 1) w1)
              else (Inl (FetchError msg), w1))
         | (Responded res, w1) \<Rightarrow>
             (if returnRaw then (Inr (Raw res), w1)
              else if accepted res then (Inr (Data (res_data res)), w1)
              else if 500 \<le> rs_status res \<and> attempt < retries
              then sn_loop E using method pathWithQuery body returnRaw retries (attempt + 1)
                     lastErr (backoff (attempt + 1) w1)
              else (let err = UpstreamError (res_detail res) (rs_status res) (rs_text res)
                    in if attempt < retries
                       then sn_loop E using method pathWithQuery body returnRaw retries
                              (attempt + 1) (Some err) (backoff (attempt + 1) w1)
                       else (Inl err, w1))))
      else (Inl (case lastErr of Some e \<Rightarrow> e | None \<Rightarrow> UnknownError), w))"
  by pat_completeness auto
termination
  by (relation "measure (\<lambda>(E, u, m, p, b, rr, retries, attempt, l, w). Suc retries - attempt)")
     auto

declare sn_loop.simps [simp del]

record sn_opts =
  returnRaw :: bool
  timeoutMs :: nat
  retries :: nat

definition default_opts :: sn_opts where
  "default_opts = \<lparr>returnRaw = False, timeoutMs = 15000, retries = 1\<rparr>"

definition sn ::
  "env \<Rightarrow> creds \<Rightarrow> string \<Rightarrow> string \<Rightarrow> json \<Rightarrow> sn_opts \<Rightarrow> world \<Rightarrow> (error + sn_value) \<times> world" where
  "sn E using method pathWithQuery body opts w =
     sn_loop E using method pathWithQuery body (returnRaw opts) (retries opts) 0 None w"

text \<open>
  No caller in the repository passes \<^verbatim>\<open>opts\<close>: every call runs with the defaults and
  receives the parsed body. (The \<open>Raw\<close> case below cannot arise with
  \<open>returnRaw = False\<close>; a raw \<^verbatim>\<open>Response\<close> has none of the properties the callers read.)
\<close>

definition sn_call ::
  "env \<Rightarrow> creds \<Rightarrow> string \<Rightarrow> string \<Rightarrow> json \<Rightarrow> world \<Rightarrow> (error + json) \<times> world" where
  "sn_call E using method pathWithQuery body w =
     (case sn E using method pathWithQuery body default_opts w of
        (Inl e, w') \<Rightarrow> (Inl e, w')
      | (Inr (Data d), w') \<Rightarrow> (Inr d, w')
      | (Inr (Raw res), w') \<Rightarrow> (Inr (JObj []), w'))"

section \<open>Helpers\<close>

definition is_hex :: "char \<Rightarrow> bool" where
  "is_hex c = ((CHR ''0'' \<le> c \<and> c \<le> CHR ''9'') \<or> (CHR ''a'' \<le> c \<and> c \<le> CHR ''f'')
               \<or> (CHR ''A'' \<le> c \<and> c \<le> CHR ''F''))"

text \<open>\<^verbatim>\<open>SYSID_RE.test(s)\<close> for \<^verbatim>\<open>/^[0-9a-f]{32}$/i\<close>.\<close>

definition SYSID_RE :: "string \<Rightarrow> bool" where
  "SYSID_RE s = (length s = 32 \<and> list_all is_hex s)"

fun isSysId :: "json \<Rightarrow> bool" where
  "isSysId (JStr s) = SYSID_RE s"
| "isSysId x = False"

fun pickId :: "json \<Rightarrow> json" where
  "pickId (JObj kvs) = (case map_of kvs ''value'' of Some x \<Rightarrow> x | None \<Rightarrow> JObj kvs)"
| "pickId v = v"

lemma size_map_of:
  "map_of kvs k = Some v \<Longrightarrow> size v < Suc (size_list (size_prod (\<lambda>_. 0) size) kvs)"
  by (induction kvs) (auto split: if_splits)

text \<open>The inner function \<^verbatim>\<open>deep\<close> of \<^verbatim>\<open>unwrapAuditVal\<close>. \<^verbatim>\<open>Object.keys\<close> of a
  one-element array is its single index.\<close>

function deep :: "json \<Rightarrow> string" where
  "deep JUndefined = []"
| "deep JNull = []"
| "deep (JBool b) = js_String (JBool b)"
| "deep (JNum n) = js_String (JNum n)"
| "deep (JStr s) = js_String (JStr s)"
| "deep (JArr xs) =
     (case xs of
        [e] \<Rightarrow> deep e
      | _ \<Rightarrow> (let s = js_String (JArr xs) in if s = ''[object Object]'' then [] else s))"
| "deep (JObj kvs) =
     (case map_of kvs ''display_value'' of Some v \<Rightarrow> deep v | None \<Rightarrow>
     (case map_of kvs ''value'' of Some v \<Rightarrow> deep v | None \<Rightarrow>
     (case map_of kvs ''name'' of Some v \<Rightarrow> deep v | None \<Rightarrow>
     (case map_of kvs ''user_name'' of Some v \<Rightarrow> deep v | None \<Rightarrow>
     (case remdups (map fst kvs) of
        [k] \<Rightarrow> (case map_of kvs k of Some v \<Rightarrow> deep v | None \<Rightarrow> [])
      | _ \<Rightarrow> (let s = js_String (JObj kvs) in if s = ''[object Object]'' then [] else s))))))"
  by pat_completeness auto
termination
  by (relation "measure size") (auto dest: size_map_of)

definition unwrapAuditVal :: "json \<Rightarrow> string" where
  "unwrapAuditVal v = trim (deep v)"

text \<open>Login stores credentials in every session it creates, so
  \<^verbatim>\<open>session?.creds || adminCreds\<close> is the session's own credentials.\<close>

definition pickActingCreds :: "env \<Rightarrow> session \<Rightarrow> creds" where
  "pickActingCreds E session =
     (if toLowerCase (USE_ADMIN_FOR_ALL (cfg E)) = ''true'' then adminCreds E
      else ss_creds session)"

text \<open>\<^verbatim>\<open>encodeURIComponent\<close> on the UTF-8 form: every byte outside the unreserved set
  becomes \<^verbatim>\<open>%XX\<close>.\<close>

definition hex_digit :: "nat \<Rightarrow> char" where
  "hex_digit n = (if n < 10 then char_of (48 + n) else char_of (55 + n))"

definition unreserved :: "char \<Rightarrow> bool" where
  "unreserved c = ((CHR ''0'' \<le> c \<and> c \<le> CHR ''9'') \<or> (CHR ''a'' \<le> c \<and> c \<le> CHR ''z'')
                  \<or> (CHR ''A'' \<le> c \<and> c \<le> CHR ''Z'') \<or> c \<in> set ''-_.!~*'' \<or> c = CHR 0x27
                  \<or> c \<in> set ''()'')"

definition encodeURIComponent :: "string \<Rightarrow> string" where
  "encodeURIComponent s =
     concat (map (\<lambda>c. if unreserved c then [c]
                        else [CHR ''%'', hex_digit (of_char c div 16), hex_digit (of_char c mod 16)]) s)"

section \<open>Sessions and \<^verbatim>\<open>requireAuth\<close>\<close>

text \<open>
  The part of an incoming request that the backend reads. \<^verbatim>\<open>req.headers.authorization\<close>
  is a string or absent; \<^verbatim>\<open>req.query.token\<close> is whatever the query parser produced
  (a string, an array, an object, or \<^verbatim>\<open>undefined\<close>).
\<close>

record http_request =
  hd_authorization :: "string option"
  q_token :: json
  p_table :: string
  p_sys_id :: string
  rq_json :: json

text \<open>
  \<open>Json code body\<close> is \<^verbatim>\<open>res.status(code).json(body)\<close>. \<open>Failure code message e\<close> is the
  reply of a handler's \<^verbatim>\<open>catch (e)\<close> clause,
  \<^verbatim>\<open>{ok: false, error: {message, detail: String(e?.message || e)}, status: 'failure'}\<close>,
  with the caught error kept as a value.
\<close>

datatype http_response = Json nat json | Failure nat string error

definition header_token :: "http_request \<Rightarrow> json" where
  "header_token req =
     (let h = (case hd_authorization req of Some s \<Rightarrow> s | None \<Rightarrow> [])
      in if take 7 h = ''Bearer '' then JStr (drop 7 h) else js_or (q_token req) (JStr []))"

text \<open>\<^verbatim>\<open>token && sessions.get(token)\<close>: the keys of the map are the strings that login
  generated, so a token that is not a string finds nothing.\<close>

fun lookup_session :: "world \<Rightarrow> json \<Rightarrow> session option" where
  "lookup_session w (JStr t) = (if t = [] then None else sessions w t)"
| "lookup_session w x = None"

definition not_authenticated :: http_response where
  "not_authenticated =
     Json 401 (JObj [(''ok'', JBool False),
                     (''error'', JObj [(''message'', JStr ''User Not Authenticated''),
                                       (''detail'', JStr ''Required to provide Auth information'')]),
                     (''status'', JStr ''failure'')])"

text \<open>\<open>Inr (session, token)\<close> is the call of \<^verbatim>\<open>next()\<close> with \<^verbatim>\<open>req.session\<close> and
  \<^verbatim>\<open>req.token\<close> set.\<close>

definition requireAuth :: "world \<Rightarrow> http_request \<Rightarrow> http_response + (session \<times> json)" where
  "requireAuth w req =
     (let token = header_token req
      in case lookup_session w token of
           None \<Rightarrow> Inl not_authenticated
         | Some session \<Rightarrow> Inr (session, token))"

section \<open>Reference resolver\<close>

definition resolveRef ::
  "env \<Rightarrow> creds \<Rightarrow> string \<Rightarrow> json \<Rightarrow> world \<Rightarrow> (error + json) \<times> world" where
  "resolveRef E using forceTable displayOrId w =
     (let candidate = pickId displayOrId in
      if \<not> truthy candidate then (Inr candidate, w)
      else if isSysId candidate then (Inr candidate, w)
      else
        (let v = encodeURIComponent (js_String candidate);
             table = (if forceTable = ''sys_user'' then ''sys_user'' else ''sys_user_group'');
             q = (if forceTable = ''sys_user''
                  then ''user_name='' @ v @ ''^ORname='' @ v @ ''^ORemail='' @ v
                       @ ''^ORuser_nameLIKE'' @ v @ ''^ORnameLIKE'' @ v @ ''^ORemailLIKE'' @ v
                  else ''name='' @ v @ ''^ORnameLIKE'' @ v);
             fields = (if forceTable = ''sys_user'' then ''sys_id,name,user_name,email''
                       else ''sys_id,name'')
         in case sn_call E using ''GET''
                   (''/api/now/table/'' @ table @ ''?sysparm_fields='' @ fields
                     @ ''&sysparm_limit=1&sysparm_query='' @ q) JUndefined w of
              (Inl e, w1) \<Rightarrow> (Inl e, w1)
            | (Inr data, w1) \<Rightarrow>
                (case oget data ''result'' of
                   JArr (hit # rest) \<Rightarrow> (Inr (js_or (oget hit ''sys_id'') candidate), w1)
                 | _ \<Rightarrow> (Inr candidate, w1))))"

definition contributorFromSession :: "session \<Rightarrow> json" where
  "contributorFromSession session =
     (let user = ss_user session in
      if \<not> truthy user then JStr ''unknown''
      else js_or (oget (field user ''user_name'') ''display_value'')
          (js_or (field user ''user_name'')
          (js_or (oget (field user ''email'') ''display_value'')
          (js_or (field user ''email'')
          (js_or (oget (field user ''name'') ''display_value'')
          (js_or (field user ''name'') (JStr ''unknown'')))))))"

section \<open>Display-name cache\<close>

definition DASH :: string where
  "DASH = [CHR 0xC3, CHR 0xA2, CHR 0xE2, CHR 0x82, CHR 0xAC, CHR 0xE2, CHR 0x80, CHR 0x9D]"

definition NAME_TTL_MS :: nat where
  "NAME_TTL_MS = 5 * 60 * 1000"

text \<open>The part of \<^verbatim>\<open>_resolveDisplayName\<close> after the cache test: the upstream read, and the
  store into the cache when it succeeds. \<open>now\<close> is the value \<^verbatim>\<open>Date.now()\<close> had on entry.\<close>

definition name_path :: "string \<Rightarrow> json \<Rightarrow> string" where
  "name_path table sys_id =
     (let fields = (if table = ''sys_user'' then ''name,user_name'' else ''name'')
      in ''/api/now/table/'' @ table @ ''/'' @ js_String sys_id
         @ ''?sysparm_display_value=all&sysparm_fields='' @ fields)"

definition fetchDisplayName ::
  "env \<Rightarrow> creds \<Rightarrow> string \<Rightarrow> json \<Rightarrow> string \<Rightarrow> nat \<Rightarrow> world \<Rightarrow> json \<times> world" where
  "fetchDisplayName E using table sys_id key now w =
     (case sn_call E using ''GET'' (name_path table sys_id) JUndefined w of
           (Inl e, w1) \<Rightarrow> (sys_id, w1)
         | (Inr r, w1) \<Rightarrow>
             (let nm = js_or (oget (oget r ''result'') ''name'')
                      (js_or (oget (oget r ''result'') ''user_name'') sys_id)
              in (nm, w1\<lparr>nameCache := (nameCache w1)(key \<mapsto>
                            \<lparr>ce_name = nm, ce_exp = now + NAME_TTL_MS\<rparr>)\<rparr>)))"

text \<open>The key of the cache, \<^verbatim>\<open>`${table}:${sys_id}`\<close>.\<close>

definition cache_key :: "string \<Rightarrow> json \<Rightarrow> string" where
  "cache_key table sys_id = table @ '':'' @ js_String sys_id"

text \<open>
  An \<^verbatim>\<open>async\<close> function runs up to its first \<^verbatim>\<open>await\<close> when it is called. For
  \<^verbatim>\<open>_resolveDisplayName\<close> that is the test of the cache: \<open>beginDisplayName\<close> is this
  first part, which either settles the label or leaves a read pending, and
  \<open>endDisplayName\<close> is the rest.
\<close>

datatype lookup = Settled json | Pending string nat

definition beginDisplayName :: "string \<Rightarrow> json \<Rightarrow> world \<Rightarrow> lookup" where
  "beginDisplayName table sys_id w =
     (if \<not> truthy sys_id then Settled (JStr DASH)
      else
        (let key = cache_key table sys_id;
             now = clock w
         in case nameCache w key of
              Some hit \<Rightarrow> (if ce_exp hit > now then Settled (ce_name hit) else Pending key now)
            | None \<Rightarrow> Pending key now))"

definition endDisplayName ::
  "env \<Rightarrow> creds \<Rightarrow> string \<Rightarrow> json \<Rightarrow> lookup \<Rightarrow> world \<Rightarrow> json \<times> world" where
  "endDisplayName E using table sys_id l w =
     (case l of
        Settled label \<Rightarrow> (label, w)
      | Pending key now \<Rightarrow> fetchDisplayName E using table sys_id key now w)"

definition resolveDisplayName ::
  "env \<Rightarrow> creds \<Rightarrow> string \<Rightarrow> json \<Rightarrow> world \<Rightarrow> json \<times> world" where
  "resolveDisplayName E using table sys_id w =
     endDisplayName E using table sys_id (beginDisplayName table sys_id w) w"

text \<open>
  \<^verbatim>\<open>Promise.all\<close> over two lookups: both are called, so both tests of the cache are made
  (and the first request of each pending read is sent) before any answer arrives. Both
  tests see the cache as it was, and an identifier given twice is read twice. The pending
  reads are then run one after the other, old value first; in the source the retries of
  the two may interleave. \<^verbatim>\<open>x ?? d\<close> is \<open>d\<close> for \<^verbatim>\<open>null\<close>/\<^verbatim>\<open>undefined\<close>.
\<close>

definition resolveBoth ::
  "env \<Rightarrow> creds \<Rightarrow> string \<Rightarrow> json \<Rightarrow> json \<Rightarrow> world \<Rightarrow> (json \<times> json) \<times> world" where
  "resolveBoth E using table oldVal newVal w =
     (let o_lookup = beginDisplayName table oldVal w;
          n_lookup = beginDisplayName table newVal w
      in case endDisplayName E using table oldVal o_lookup w of (o_name, w1) \<Rightarrow>
         case endDisplayName E using table newVal n_lookup w1 of (n_name, w2) \<Rightarrow>
           ((o_name, n_name), w2))"

definition resolveAssignedDisplay ::
  "env \<Rightarrow> creds \<Rightarrow> string \<Rightarrow> json \<Rightarrow> json \<Rightarrow> world \<Rightarrow> (json \<times> json) \<times> world" where
  "resolveAssignedDisplay E using fieldname oldVal newVal w =
     (if fieldname = ''assigned_to'' then resolveBoth E using ''sys_user'' oldVal newVal w
      else if fieldname = ''assignment_group''
      then resolveBoth E using ''sys_user_group'' oldVal newVal w
      else ((if nullish oldVal then JStr DASH else oldVal,
             if nullish newVal then JStr DASH else newVal), w))"

section \<open>Activity: journal and audit merged into one narrative\<close>

record entry =
  e_ts :: json
  e_by :: json
  e_type :: string
  e_text :: string

definition ARROW :: string where
  "ARROW = [CHR 0x20, CHR 0xC3, CHR 0xA2, CHR 0xE2, CHR 0x80, CHR 0xA0, CHR 0xE2, CHR 0x80,
            CHR 0x99, CHR 0x20]"

definition NL :: string where
  "NL = [CHR 0x0A]"

definition cont_by :: "json \<Rightarrow> string" where
  "cont_by who = '' #Cont. by '' @ js_String who"

fun mapE :: "('a \<Rightarrow> error + 'b) \<Rightarrow> 'a list \<Rightarrow> error + 'b list" where
  "mapE f [] = Inr []"
| "mapE f (x # xs) = bindE (f x) (\<lambda>y. bindE (mapE f xs) (\<lambda>ys. Inr (y # ys)))"

fun filterE :: "('a \<Rightarrow> error + bool) \<Rightarrow> 'a list \<Rightarrow> error + 'a list" where
  "filterE p [] = Inr []"
| "filterE p (x # xs) =
     bindE (p x) (\<lambda>b. bindE (filterE p xs) (\<lambda>ys. Inr (if b then x # ys else ys)))"

text \<open>The characters of a string, as \<^verbatim>\<open>for ... of\<close> visits them: a byte that is not a
  UTF-8 continuation byte starts a new one.\<close>

definition is_cont :: "char \<Rightarrow> bool" where
  "is_cont c = (128 \<le> (of_char c :: nat) \<and> (of_char c :: nat) < 192)"

function code_points :: "string \<Rightarrow> string list" where
  "code_points [] = []"
| "code_points (c # cs) = (c # takeWhile is_cont cs) # code_points (dropWhile is_cont cs)"
  by pat_completeness auto
termination
  by (relation "measure length") (auto simp: length_dropWhile_le less_Suc_eq_le)

text \<open>\<^verbatim>\<open>for (const r of v)\<close>: arrays and strings are iterable, nothing else that
  \<^verbatim>\<open>JSON.parse\<close> produces is.\<close>

fun iterate :: "json \<Rightarrow> error + json list" where
  "iterate (JArr xs) = Inr xs"
| "iterate (JStr s) = Inr (map JStr (code_points s))"
| "iterate x = Inl TypeError"

text \<open>\<^verbatim>\<open>v.filter(...)\<close>: only an array has the method.\<close>

fun as_array :: "json \<Rightarrow> error + json list" where
  "as_array (JArr xs) = Inr xs"
| "as_array x = Inl TypeError"

definition journal_entry :: "env \<Rightarrow> json \<Rightarrow> error + entry" where
  "journal_entry E r =
     bindE (get r ''element'') (\<lambda>element.
       let ty = toUpperCase E (js_String (js_or element (JStr [])));
           body = trim (js_String (js_or (field r ''value'') (JStr [])));
           tag = cont_by (field r ''sys_created_by'');
           text = (if body \<noteq> [] then body @ tag else tag)
       in Inr \<lparr>e_ts = field r ''sys_created_on'', e_by = field r ''sys_created_by'',
                e_type = ty, e_text = text\<rparr>)"

definition fieldname_lc :: "json \<Rightarrow> error + string" where
  "fieldname_lc x =
     bindE (get x ''fieldname'') (\<lambda>fn. Inr (toLowerCase (js_String (js_or fn (JStr [])))))"

definition stateSeenAt :: "json list \<Rightarrow> error + json list" where
  "stateSeenAt rows =
     bindE (filterE (\<lambda>x. bindE (fieldname_lc x) (\<lambda>fl. Inr (fl = ''state''))) rows)
       (mapE (\<lambda>x. get x ''sys_created_on''))"

text \<open>
  \<^verbatim>\<open>Set.prototype.has\<close> compares primitives by value and objects by identity. Every object
  that \<^verbatim>\<open>JSON.parse\<close> returns is a fresh one, and the test below is only made for a row
  other than the rows that filled the set, so an object or array is never found.
\<close>

fun primitive :: "json \<Rightarrow> bool" where
  "primitive (JArr xs) = False"
| "primitive (JObj kvs) = False"
| "primitive x = True"

definition set_has :: "json list \<Rightarrow> json \<Rightarrow> bool" where
  "set_has seen v = (primitive v \<and> v \<in> set seen)"

definition placeholder :: "string \<Rightarrow> json" where
  "placeholder raw = (if raw = [] then JStr DASH else JStr raw)"

definition sys_id_or_null :: "string \<Rightarrow> json" where
  "sys_id_or_null raw = (if SYSID_RE raw then JStr raw else JNull)"

text \<open>The values shown for an audit row of an assignment field: identifiers are replaced
  by display names.\<close>

definition resolve_names ::
  "env \<Rightarrow> string \<Rightarrow> string \<Rightarrow> string \<Rightarrow> world \<Rightarrow> (json \<times> json) \<times> world" where
  "resolve_names E fl rawOld rawNew w =
     (let oldVal = placeholder rawOld; newVal = placeholder rawNew in
      if fl = ''assigned_to'' \<or> fl = ''assignment_group'' then
        (let oldId = sys_id_or_null rawOld; newId = sys_id_or_null rawNew in
         if truthy oldId \<or> truthy newId then
           (case resolveAssignedDisplay E (adminCreds E) fl oldId newId w of
              ((oName, nName), w1) \<Rightarrow>
                ((if truthy oldId \<and> truthy oName then oName else oldVal,
                  if truthy newId \<and> truthy nName then nName else newVal), w1))
         else ((oldVal, newVal), w))
      else ((oldVal, newVal), w))"

text \<open>The body of the loop over the audit rows; \<open>None\<close> is \<^verbatim>\<open>continue\<close>.\<close>

definition audit_entry ::
  "env \<Rightarrow> json list \<Rightarrow> json \<Rightarrow> world \<Rightarrow> (error + entry option) \<times> world" where
  "audit_entry E seen r w =
     (case fieldname_lc r of
        Inl e \<Rightarrow> (Inl e, w)
      | Inr fl \<Rightarrow>
          if fl = ''work_notes'' \<or> fl = ''comments'' then (Inr None, w)
          else if fl = ''incident_state'' \<and> set_has seen (field r ''sys_created_on'')
          then (Inr None, w)
          else
            (let f = (if fl = ''incident_state'' then ''state''
                      else js_String (js_or (field r ''fieldname'') (JStr [])));
                 rawOld = unwrapAuditVal (field r ''oldvalue'');
                 rawNew = unwrapAuditVal (field r ''newvalue'')
             in case resolve_names E fl rawOld rawNew w of
                  ((oldVal, newVal), w1) \<Rightarrow>
                    (Inr (Some \<lparr>e_ts = field r ''sys_created_on'',
                                e_by = field r ''sys_created_by'',
                                e_type = ''FIELD'',
                                e_text = f @ '': '' @ js_String oldVal @ ARROW @ js_String newVal
                                           @ cont_by (field r ''sys_created_by'')\<rparr>), w1)))"

fun audit_loop ::
  "env \<Rightarrow> json list \<Rightarrow> json list \<Rightarrow> world \<Rightarrow> (error + entry list) \<times> world" where
  "audit_loop E seen [] w = (Inr [], w)"
| "audit_loop E seen (r # rs) w =
     (case audit_entry E seen r w of
        (Inl e, w1) \<Rightarrow> (Inl e, w1)
      | (Inr oe, w1) \<Rightarrow>
          (case audit_loop E seen rs w1 of
             (Inl e, w2) \<Rightarrow> (Inl e, w2)
           | (Inr es, w2) \<Rightarrow> (Inr (case oe of None \<Rightarrow> es | Some x \<Rightarrow> x # es), w2)))"

text \<open>
  \<^verbatim>\<open>Array.prototype.sort\<close> is stable. For a comparator that is a consistent order every
  stable sort returns the same array; it is computed here by insertion from the right.
\<close>

fun insert_by :: "('a \<Rightarrow> 'a \<Rightarrow> int) \<Rightarrow> 'a \<Rightarrow> 'a list \<Rightarrow> 'a list" where
  "insert_by cmp x [] = [x]"
| "insert_by cmp x (y # ys) = (if cmp x y \<le> 0 then x # y # ys else y # insert_by cmp x ys)"

definition js_sort :: "('a \<Rightarrow> 'a \<Rightarrow> int) \<Rightarrow> 'a list \<Rightarrow> 'a list" where
  "js_sort cmp xs = foldr (insert_by cmp) xs []"

text \<open>The comparator \<^verbatim>\<open>(a, b) => String(b.ts).localeCompare(String(a.ts))\<close>.\<close>

definition newest_first :: "env \<Rightarrow> entry \<Rightarrow> entry \<Rightarrow> int" where
  "newest_first E a b = localeCompare E (js_String (e_ts b)) (js_String (e_ts a))"

definition journal_path :: "string \<Rightarrow> string" where
  "journal_path sys_id =
     ''/api/now/table/sys_journal_field?''
     @ ''sysparm_fields=sys_created_on,sys_created_by,element,value&sysparm_query=''
     @ encodeURIComponent (''element_id='' @ sys_id
          @ ''^elementINwork_notes,comments^ORDERBYDESCsys_created_on'')
     @ ''&sysparm_limit=500''"

definition audit_path :: "string \<Rightarrow> string" where
  "audit_path sys_id =
     ''/api/now/table/sys_audit?'' @ ''sysparm_display_value=all&''
     @ ''sysparm_fields=sys_created_on,sys_created_by,fieldname,oldvalue,newvalue,tablename&''
     @ ''sysparm_query='' @ encodeURIComponent (''documentkey='' @ sys_id
          @ ''^ORDERBYDESCsys_created_on'')
     @ ''&sysparm_limit=500''"

text \<open>The \<^verbatim>\<open>try\<close> block of the activity handler up to and including the sort.\<close>

definition merge_feeds ::
  "env \<Rightarrow> json \<Rightarrow> json \<Rightarrow> world \<Rightarrow> (error + entry list) \<times> world" where
  "merge_feeds E jf au w =
     (case bindE (get jf ''result'') (\<lambda>jr.
             bindE (iterate (js_or jr (JArr []))) (mapE (journal_entry E))) of
        Inl e \<Rightarrow> (Inl e, w)
      | Inr jes \<Rightarrow>
          (case bindE (get au ''result'') (\<lambda>ar. as_array (js_or ar (JArr []))) of
             Inl e \<Rightarrow> (Inl e, w)
           | Inr rows \<Rightarrow>
               (case stateSeenAt rows of
                  Inl e \<Rightarrow> (Inl e, w)
                | Inr seen \<Rightarrow>
                    (case audit_loop E seen rows w of
                       (Inl e, w1) \<Rightarrow> (Inl e, w1)
                     | (Inr aes, w1) \<Rightarrow> (Inr (js_sort (newest_first E) (jes @ aes)), w1)))))"

definition activity_entries ::
  "env \<Rightarrow> session \<Rightarrow> string \<Rightarrow> string \<Rightarrow> world \<Rightarrow> (error + entry list) \<times> world" where
  "activity_entries E session table sys_id w =
     (case sn_call E (pickActingCreds E session) ''GET'' (journal_path sys_id) JUndefined w of
        (Inl e, w1) \<Rightarrow> (Inl e, w1)
      | (Inr jf, w1) \<Rightarrow>
          (case sn_call E (adminCreds E) ''GET'' (audit_path sys_id) JUndefined w1 of
             (Inl e, w2) \<Rightarrow> (Inl e, w2)
           | (Inr au, w2) \<Rightarrow> merge_feeds E jf au w2))"

definition render_entry :: "entry \<Rightarrow> string" where
  "render_entry e =
     ''['' @ js_String (e_ts e) @ ''] '' @ js_String (e_by e) @ '' '' @ DASH @ '' ''
     @ e_type e @ NL @ e_text e"

definition activity_handler ::
  "env \<Rightarrow> session \<Rightarrow> string \<Rightarrow> string \<Rightarrow> world \<Rightarrow> http_response \<times> world" where
  "activity_handler E session table sys_id w =
     (case activity_entries E session table sys_id w of
        (Inr entries, w1) \<Rightarrow>
          (Json 200 (JObj [(''ok'', JBool True),
                           (''result'', JStr (join NL (map render_entry entries)))]), w1)
      | (Inl e, w1) \<Rightarrow> (Failure 500 ''Activity fetch failed'' e, w1))"

text \<open>The route: \<^verbatim>\<open>requireAuth\<close>, then the handler.\<close>

definition activity_route :: "env \<Rightarrow> http_request \<Rightarrow> world \<Rightarrow> http_response \<times> world" where
  "activity_route E req w =
     (case requireAuth w req of
        Inl reply \<Rightarrow> (reply, w)
      | Inr (session, token) \<Rightarrow> activity_handler E session (p_table req) (p_sys_id req) w)"

section \<open>Update of a record\<close>

definition norm :: "json \<Rightarrow> json" where
  "norm v = (if v = JStr [] \<or> v = JNull \<or> v = JUndefined then JUndefined else v)"

text \<open>\<^verbatim>\<open>...(v !== undefined && {k: v})\<close> inside an object literal.\<close>

definition spread_if :: "string \<Rightarrow> json \<Rightarrow> (string \<times> json) list" where
  "spread_if k v = (if v \<noteq> JUndefined then [(k, v)] else [])"

definition stamp :: "json \<Rightarrow> string \<Rightarrow> string" where
  "stamp who txt = (let s = trim txt in if s \<noteq> [] then s @ NL @ ''#Cont. by '' @ js_String who else [])"

definition journal_input :: "json \<Rightarrow> string option" where
  "journal_input v = (if v \<noteq> JUndefined then Some (trim (js_String v)) else None)"

definition note_prop :: "json \<Rightarrow> string \<Rightarrow> string option \<Rightarrow> (string \<times> json) list" where
  "note_prop who k typed =
     (case typed of
        Some s \<Rightarrow> [(k, JStr (if s \<noteq> [] then stamp who s else []))]
      | None \<Rightarrow> [])"

definition update_failed :: "error \<Rightarrow> world \<Rightarrow> http_response \<times> world" where
  "update_failed e w = (Failure 500 ''Update failed'' e, w)"

definition record_path :: "string \<Rightarrow> string \<Rightarrow> string" where
  "record_path table sys_id = ''/api/now/table/'' @ table @ ''/'' @ sys_id"

definition resolve_if_given ::
  "env \<Rightarrow> creds \<Rightarrow> string \<Rightarrow> json \<Rightarrow> world \<Rightarrow> (error + json) \<times> world" where
  "resolve_if_given E using forceTable given w =
     (let picked = (if given \<noteq> JUndefined then pickId given else JUndefined)
      in if picked \<noteq> JUndefined then resolveRef E using forceTable picked w
         else (Inr JUndefined, w))"

definition update_handler ::
  "env \<Rightarrow> session \<Rightarrow> string \<Rightarrow> string \<Rightarrow> json \<Rightarrow> world \<Rightarrow> http_response \<times> world" where
  "update_handler E session table sys_id req_body w =
     (let using = pickActingCreds E session;
          body = js_or req_body (JObj []);
          fields = ''sys_id,number,short_description,assigned_to,assignment_group,state,priority,impact,urgency''
      in
      case sn_call E using ''GET''
             (record_path table sys_id @ ''?sysparm_display_value=all&sysparm_fields='' @ fields)
             JUndefined w of
        (Inl e, w1) \<Rightarrow> update_failed e w1
      | (Inr current, w1) \<Rightarrow>
      (case get current ''result'' of
        Inl e \<Rightarrow> update_failed e w1
      | Inr oldRec \<Rightarrow>
      (case resolve_if_given E using ''sys_user'' (field body ''assigned_to'') w1 of
        (Inl e, w2) \<Rightarrow> update_failed e w2
      | (Inr assigned_to, w2) \<Rightarrow>
      (case resolve_if_given E using ''sys_user_group'' (field body ''assignment_group'') w2 of
        (Inl e, w3) \<Rightarrow> update_failed e w3
      | (Inr assignment_group, w3) \<Rightarrow>
      (let fieldsPayload =
             spread_if ''state'' (norm (field body ''state''))
           @ spread_if ''impact'' (norm (field body ''impact''))
           @ spread_if ''urgency'' (norm (field body ''urgency''))
           @ spread_if ''priority'' (norm (field body ''priority''))
           @ spread_if ''assigned_to'' assigned_to
           @ spread_if ''assignment_group'' assignment_group
           @ spread_if ''short_description'' (norm (field body ''short_description''))
           @ spread_if ''description'' (norm (field body ''description''))
       in
       case (if fieldsPayload \<noteq> []
             then sn_call E using ''PATCH'' (record_path table sys_id) (JObj fieldsPayload) w3
             else (Inr JUndefined, w3)) of
         (Inl e, w4) \<Rightarrow> update_failed e w4
       | (Inr patched, w4) \<Rightarrow>
       (let who = contributorFromSession session;
            wnUser = journal_input (field body ''work_notes'');
            acUser = journal_input (field body ''comments'');
            notesPayload = note_prop who ''work_notes'' wnUser @ note_prop who ''comments'' acUser
        in
        case (if notesPayload \<noteq> []
              then sn_call E using ''PATCH''
                     (record_path table sys_id @ ''?sysparm_input_display_value=true'')
                     (JObj notesPayload) w4
              else (Inr JUndefined, w4)) of
          (Inl e, w5) \<Rightarrow> update_failed e w5
        | (Inr noted, w5) \<Rightarrow>
            (Json 200 (JObj [(''ok'', JBool True), (''result'', JBool True)]), w5)))))))"

definition update_route :: "env \<Rightarrow> http_request \<Rightarrow> world \<Rightarrow> http_response \<times> world" where
  "update_route E req w =
     (case requireAuth w req of
        Inl reply \<Rightarrow> (reply, w)
      | Inr (session, token) \<Rightarrow>
          update_handler E session (p_table req) (p_sys_id req) (rq_json req) w)"

section \<open>A scripted upstream for the scenarios\<close>

text \<open>
  The scenarios run against an upstream that answers the \<open>k\<close>-th request of the process with
  the \<open>k\<close>-th outcome of a script and refuses every further connection. The text of a
  scripted body is a stand-in: the backend only tests it for emptiness and copies it into
  errors.
\<close>

definition scripted :: "outcome list \<Rightarrow> request list \<Rightarrow> outcome" where
  "scripted outs h =
     (if 0 < length h \<and> length h \<le> length outs then outs ! (length h - 1)
      else Rejected ''connection refused'')"

definition answer :: "nat \<Rightarrow> json \<Rightarrow> outcome" where
  "answer code j =
     Responded \<lparr>rs_status = code, rs_statusText = [], rs_text = ''(json)'', rs_parsed = Some j\<rparr>"

definition byte_compare :: "string \<Rightarrow> string \<Rightarrow> int" where
  "byte_compare a b = (if a < b then - 1 else if a = b then 0 else 1)"

definition demo_env :: "(request list \<Rightarrow> outcome) \<Rightarrow> env" where
  "demo_env up =
     \<lparr>cfg = \<lparr>SN_INSTANCE = ''dev.example.com'', SN_USERNAME = ''svc'', SN_PASSWORD = ''secret'',
             USE_ADMIN_FOR_ALL = ''true''\<rparr>,
      upstream = up,
      elapsed = (\<lambda>h. 5),
      localeCompare = byte_compare,
      toUpperCase = ascii_upper\<rparr>"

definition jdoe :: session where
  "jdoe =
     \<lparr>ss_user = JObj [(''sys_id'', JStr ''6816f79cc0a8016401c5a33be04be441''),
                      (''name'', JStr ''John Doe''), (''user_name'', JStr ''jdoe'')],
      ss_via = ''admin'',
      ss_creds = \<lparr>cr_instance = ''dev.example.com'', cr_username = ''svc'',
                  cr_password = ''secret''\<rparr>,
      ss_userSysId = JStr ''6816f79cc0a8016401c5a33be04be441'',
      ss_groups = JArr []\<rparr>"

definition jdoe_token :: string where
  "jdoe_token = ''5f2b0c7d9a1e4f38b6c2d0e1a7f94b3c8d5e6f7a01b2c3d4''"

definition start :: world where
  "start = \<lparr>calls = [], clock = 0, nameCache = Map.empty, sessions = [jdoe_token \<mapsto> jdoe]\<rparr>"

text \<open>A journal feed with one note, and an audit feed in which the upstream recorded one
  change of status twice, under \<^verbatim>\<open>state\<close> and under \<^verbatim>\<open>incident_state\<close>, a later
  change under \<^verbatim>\<open>incident_state\<close> only, and an earlier row whose old value is empty.\<close>

definition note_row :: json where
  "note_row = JObj [(''sys_created_on'', JStr ''2024-05-01 10:05:00''),
                    (''sys_created_by'', JStr ''jdoe''),
                    (''element'', JStr ''work_notes''), (''value'', JStr ''checking now'')]"

definition state_row :: json where
  "state_row = JObj [(''sys_created_on'', JStr ''2024-05-01 10:00:00''),
                     (''sys_created_by'', JStr ''jdoe''),
                     (''fieldname'', JStr ''state''),
                     (''oldvalue'', JStr ''1''), (''newvalue'', JStr ''2'')]"

definition alias_row :: json where
  "alias_row = JObj [(''sys_created_on'', JStr ''2024-05-01 10:00:00''),
                     (''sys_created_by'', JStr ''jdoe''),
                     (''fieldname'', JStr ''incident_state''),
                     (''oldvalue'', JStr ''1''), (''newvalue'', JStr ''2'')]"

definition late_alias_row :: json where
  "late_alias_row = JObj [(''sys_created_on'', JStr ''2024-05-01 11:00:00''),
                          (''sys_created_by'', JStr ''asmith''),
                          (''fieldname'', JStr ''incident_state''),
                          (''oldvalue'', JStr ''2''), (''newvalue'', JNull)]"

definition first_row :: json where
  "first_row = JObj [(''sys_created_on'', JStr ''2024-05-01 09:00:00''),
                     (''sys_created_by'', JStr ''jdoe''),
                     (''fieldname'', JStr ''priority''),
                     (''oldvalue'', JStr []), (''newvalue'', JStr ''3'')]"

definition journal_feed :: json where
  "journal_feed = JObj [(''result'', JArr [note_row])]"

definition audit_feed :: json where
  "audit_feed = JObj [(''result'', JArr [late_alias_row, state_row, alias_row, first_row])]"

definition feeds_env :: env where
  "feeds_env = demo_env (scripted [answer 200 journal_feed, answer 200 audit_feed])"

definition incident_id :: string where
  "incident_id = ''46e18c0fa9fe19810066a0083f76bd56''"


definition steady_env :: env where
  "steady_env = demo_env (\<lambda>h. answer 200 (JObj [(''result'', JObj [])]))"

definition names_env :: env where
  "names_env = demo_env (scripted
     [answer 200 (JObj [(''result'', JObj [(''name'', JStr ''John Doe'')])])])"

definition down_env :: env where
  "down_env = demo_env (scripted [])"

definition user_id :: json where
  "user_id = JStr ''6816f79cc0a8016401c5a33be04be441''"

definition stale_hit :: cache_entry where
  "stale_hit = \<lparr>ce_name = JStr ''J. Doe'', ce_exp = 300000\<rparr>"

definition stale_world :: world where
  "stale_world = start\<lparr>clock := 400000,
                        nameCache := [cache_key ''sys_user'' user_id \<mapsto> stale_hit]\<rparr>"

definition demo_entries :: "entry list" where
  "demo_entries =
     [\<lparr>e_ts = JStr ''2024-05-01 11:00:00'', e_by = JStr ''asmith'', e_type = ''FIELD'',
       e_text = ''state: 2'' @ ARROW @ DASH @ '' #Cont. by asmith''\<rparr>,
      \<lparr>e_ts = JStr ''2024-05-01 10:05:00'', e_by = JStr ''jdoe'', e_type = ''WORK_NOTES'',
       e_text = ''checking now #Cont. by jdoe''\<rparr>,
      \<lparr>e_ts = JStr ''2024-05-01 10:00:00'', e_by = JStr ''jdoe'', e_type = ''FIELD'',
       e_text = ''state: 1'' @ ARROW @ ''2 #Cont. by jdoe''\<rparr>,
      \<lparr>e_ts = JStr ''2024-05-01 09:00:00'', e_by = JStr ''jdoe'', e_type = ''FIELD'',
       e_text = ''priority: '' @ DASH @ ARROW @ ''3 #Cont. by jdoe''\<rparr>]"





text \<open>
  The handler asks for the audit feed with \<^verbatim>\<open>sysparm_display_value=all\<close>; the table API
  of the upstream then sends each field of a row as an object with the two properties
  \<^verbatim>\<open>display_value\<close> and \<^verbatim>\<open>value\<close>. Rows of that form, rows in which only the timestamp
  has it, and an upstream that answers with an empty journal feed and then with the given
  audit rows.
\<close>

definition wrap :: "json \<Rightarrow> json" where
  "wrap v = JObj [(''display_value'', v), (''value'', v)]"

definition wrapped_row :: "string \<Rightarrow> string \<Rightarrow> string \<Rightarrow> json" where
  "wrapped_row fieldname oldvalue newvalue =
     JObj [(''sys_created_on'', wrap (JStr ''2024-05-01 10:00:00'')),
           (''sys_created_by'', wrap (JStr ''jdoe'')),
           (''fieldname'', wrap (JStr fieldname)),
           (''oldvalue'', wrap (JStr oldvalue)), (''newvalue'', wrap (JStr newvalue))]"

definition object_stamp_row :: "string \<Rightarrow> json" where
  "object_stamp_row fieldname =
     JObj [(''sys_created_on'', wrap (JStr ''2024-05-01 10:00:00'')),
           (''sys_created_by'', JStr ''jdoe''),
           (''fieldname'', JStr fieldname),
           (''oldvalue'', JStr ''1''), (''newvalue'', JStr ''2'')]"

definition audit_only :: "json list \<Rightarrow> env" where
  "audit_only rows =
     demo_env (scripted [answer 200 (JObj [(''result'', JArr [])]),
                         answer 200 (JObj [(''result'', JArr rows)])])"

section \<open>Notions used in the statements\<close>

text \<open>One pass of the loop of \<^verbatim>\<open>sn\<close>, as a decision on the outcome of \<^verbatim>\<open>fetch\<close>:
  return, throw, or go round again with a new \<open>lastErr\<close>.\<close>

datatype verdict = Return sn_value | Throw error | Retry "error option"

definition sn_verdict :: "bool \<Rightarrow> nat \<Rightarrow> nat \<Rightarrow> error option \<Rightarrow> outcome \<Rightarrow> verdict" where
  "sn_verdict rr rt attempt l out =
     (case out of
        Rejected msg \<Rightarrow>
          if attempt < rt then Retry (Some (FetchError msg)) else Throw (FetchError msg)
      | Responded res \<Rightarrow>
          if rr then Return (Raw res)
          else if accepted res then Return (Data (res_data res))
          else if 500 \<le> rs_status res \<and> attempt < rt then Retry l
          else if attempt < rt
          then Retry (Some (UpstreamError (res_detail res) (rs_status res) (rs_text res)))
          else Throw (UpstreamError (res_detail res) (rs_status res) (rs_text res)))"

definition fetched :: "env \<Rightarrow> request \<Rightarrow> world \<Rightarrow> world" where
  "fetched E rq w = snd (do_fetch E rq w)"

text \<open>An upstream that accepts every request and answers with a value other than
  \<^verbatim>\<open>null\<close>; \<open>reply_data\<close> is the parsed body of its answer.\<close>

definition healthy :: "env \<Rightarrow> bool" where
  "healthy E =
     (\<forall>h. \<exists>res. upstream E h = Responded res \<and> accepted res \<and> \<not> nullish (res_data res))"

definition reply_data :: "env \<Rightarrow> request list \<Rightarrow> json" where
  "reply_data E h =
     (case upstream E h of Responded res \<Rightarrow> res_data res | Rejected msg \<Rightarrow> JUndefined)"

text \<open>Plain scalars, and the values that count as empty.\<close>

fun scalar :: "json \<Rightarrow> bool" where
  "scalar (JBool b) = True"
| "scalar (JNum n) = True"
| "scalar (JStr s) = True"
| "scalar x = False"

definition empty_value :: "json \<Rightarrow> bool" where
  "empty_value v = (v = JNull \<or> v = JUndefined \<or> v = JStr [])"


text \<open>The body of the update in the scenario of the specification.\<close>

definition update_body :: json where
  "update_body = JObj [(''state'', JStr ''2''), (''work_notes'', JStr ''checking now'')]"

text \<open>A string that neither begins nor ends with white space.\<close>

definition bare :: "string \<Rightarrow> bool" where
  "bare s = (find (starts_with s) white_space = None
             \<and> find (starts_with (rev s)) (map rev white_space) = None)"

text \<open>The state of the process after the journal feed of the scenario has been read, and
  after the audit feed has been read as well.\<close>

definition after_journal :: world where
  "after_journal = fetched feeds_env
     (mk_request feeds_env (pickActingCreds feeds_env jdoe) ''GET'' (journal_path incident_id)
        JUndefined) start"

definition after_audit :: world where
  "after_audit = fetched feeds_env
     (mk_request feeds_env (adminCreds feeds_env) ''GET'' (audit_path incident_id) JUndefined)
     after_journal"

section \<open>The upstream client, one pass at a time\<close>

lemma sn_loop_step:
  assumes "attempt \<le> rt"
  shows "sn_loop E u m p b rr rt attempt l w =
     (case sn_verdict rr rt attempt l (upstream E (calls w @ [mk_request E u m p b])) of
        Return v \<Rightarrow> (Inr v, fetched E (mk_request E u m p b) w)
      | Throw e \<Rightarrow> (Inl e, fetched E (mk_request E u m p b) w)
      | Retry l' \<Rightarrow> sn_loop E u m p b rr rt (attempt + 1) l'
                     (backoff (attempt + 1) (fetched E (mk_request E u m p b) w)))"
  using assms
  by (subst sn_loop.simps)
     (simp add: sn_verdict_def fetched_def do_fetch_def Let_def split: outcome.splits)

lemma sn_verdict_Retry: "sn_verdict rr rt attempt l out = Retry l' \<Longrightarrow> attempt < rt"
  by (auto simp: sn_verdict_def split: outcome.splits if_splits)

lemma fetched_simps [simp]:
  "calls (fetched E rq w) = calls w @ [rq]"
  "nameCache (fetched E rq w) = nameCache w"
  "sessions (fetched E rq w) = sessions w"
  "fetched E rq (w\<lparr>nameCache := c\<rparr>) = (fetched E rq w)\<lparr>nameCache := c\<rparr>"
  by (simp_all add: fetched_def do_fetch_def Let_def)

lemma backoff_simps [simp]:
  "calls (backoff k w) = calls w"
  "nameCache (backoff k w) = nameCache w"
  "sessions (backoff k w) = sessions w"
  "backoff k (w\<lparr>nameCache := c\<rparr>) = (backoff k w)\<lparr>nameCache := c\<rparr>"
  by (simp_all add: backoff_def)

lemma sn_loop_frame:
  "n = rt - attempt \<Longrightarrow> attempt \<le> rt \<Longrightarrow>
   nameCache (snd (sn_loop E u m p b rr rt attempt l w)) = nameCache w
   \<and> sessions (snd (sn_loop E u m p b rr rt attempt l w)) = sessions w
   \<and> length (calls w) < length (calls (snd (sn_loop E u m p b rr rt attempt l w)))"
proof (induction n arbitrary: attempt l w)
  case 0
  then have "\<not> attempt < rt" by simp
  then show ?case
    using sn_verdict_Retry [of rr rt attempt l]
    by (cases "sn_verdict rr rt attempt l (upstream E (calls w @ [mk_request E u m p b]))")
       (auto simp: sn_loop_step [OF 0(2)])
next
  case (Suc n)
  show ?case
  proof (cases "sn_verdict rr rt attempt l (upstream E (calls w @ [mk_request E u m p b]))")
    case (Retry l')
    have "n = rt - (attempt + 1)" "attempt + 1 \<le> rt"
      using Suc.prems by simp_all
    from Suc.IH [OF this, of l' "backoff (attempt + 1) (fetched E (mk_request E u m p b) w)"]
    show ?thesis
      by (simp add: sn_loop_step [OF Suc.prems(2)] Retry)
  qed (simp_all add: sn_loop_step [OF Suc.prems(2)])
qed

lemma sn_loop_cache_blind:
  "n = rt - attempt \<Longrightarrow> attempt \<le> rt \<Longrightarrow>
   sn_loop E u m p b rr rt attempt l (w\<lparr>nameCache := c\<rparr>)
   = (fst (sn_loop E u m p b rr rt attempt l w),
      (snd (sn_loop E u m p b rr rt attempt l w))\<lparr>nameCache := c\<rparr>)"
proof (induction n arbitrary: attempt l w)
  case 0
  then have "\<not> attempt < rt" by simp
  then show ?case
    using sn_verdict_Retry [of rr rt attempt l]
    by (cases "sn_verdict rr rt attempt l (upstream E (calls w @ [mk_request E u m p b]))")
       (auto simp: sn_loop_step [OF 0(2)])
next
  case (Suc n)
  show ?case
  proof (cases "sn_verdict rr rt attempt l (upstream E (calls w @ [mk_request E u m p b]))")
    case (Retry l')
    have "n = rt - (attempt + 1)" "attempt + 1 \<le> rt"
      using Suc.prems by simp_all
    from Suc.IH [OF this, of l' "backoff (attempt + 1) (fetched E (mk_request E u m p b) w)"]
    show ?thesis
      by (simp add: sn_loop_step [OF Suc.prems(2)] Retry)
  qed (simp_all add: sn_loop_step [OF Suc.prems(2)])
qed

lemma sn_call_frame:
  "nameCache (snd (sn_call E u m p b w)) = nameCache w"
  "sessions (snd (sn_call E u m p b w)) = sessions w"
  "length (calls w) < length (calls (snd (sn_call E u m p b w)))"
  using sn_loop_frame [of 1 1 0 E u m p b False None w]
  by (auto simp: sn_call_def sn_def default_opts_def split: prod.splits sum.splits sn_value.splits)

lemma sn_call_cache_blind:
  "sn_call E u m p b (w\<lparr>nameCache := c\<rparr>)
   = (fst (sn_call E u m p b w), (snd (sn_call E u m p b w))\<lparr>nameCache := c\<rparr>)"
  using sn_loop_cache_blind [where n = 1 and rt = 1 and attempt = 0 and rr = False and l = None and w = w and c = c and E = E and u = u and m = m and p = p and b = b]
  by (auto simp: sn_call_def sn_def default_opts_def split: prod.splits sum.splits sn_value.splits)

lemma sn_call_accepted:
  assumes "upstream E (calls w @ [mk_request E u m p b]) = Responded res"
    and "accepted res"
  shows "sn_call E u m p b w = (Inr (res_data res), fetched E (mk_request E u m p b) w)"
  using assms
  by (simp add: sn_call_def sn_def default_opts_def sn_loop_step sn_verdict_def)

lemma sn_call_rejected:
  assumes "upstream E (calls w @ [mk_request E u m p b]) = Rejected m1"
    and "upstream E (calls w @ [mk_request E u m p b, mk_request E u m p b]) = Rejected m2"
  shows "sn_call E u m p b w
         = (Inl (FetchError m2),
            fetched E (mk_request E u m p b) (backoff 1 (fetched E (mk_request E u m p b) w)))"
  using assms
  by (simp add: sn_call_def sn_def default_opts_def sn_loop_step sn_verdict_def)

text \<open>
  Against a scripted upstream.
\<close>

lemma scripted_nth:
  "length h = Suc k \<Longrightarrow> k < length outs \<Longrightarrow> scripted outs h = outs ! k"
  by (simp add: scripted_def)

lemma scripted_past:
  "length outs < length h \<Longrightarrow> scripted outs h = Rejected ''connection refused''"
  by (simp add: scripted_def)

lemma answer_200:
  assumes "oget j ''status'' \<noteq> JStr ''failure''" "\<not> truthy (oget j ''error'')"
  shows "\<exists>res. answer 200 j = Responded res \<and> accepted res \<and> res_data res = j"
  using assms by (simp add: answer_def accepted_def res_ok_def res_data_def)

lemma sn_call_scripted:
  assumes "upstream E = scripted outs" and "length (calls w) < length outs"
    and "outs ! length (calls w) = answer 200 j"
    and "oget j ''status'' \<noteq> JStr ''failure''" and "\<not> truthy (oget j ''error'')"
  shows "sn_call E u m p b w = (Inr j, fetched E (mk_request E u m p b) w)"
proof -
  obtain res where res: "answer 200 j = Responded res" "accepted res" "res_data res = j"
    using answer_200 [OF assms(4,5)] by blast
  have "upstream E (calls w @ [mk_request E u m p b]) = Responded res"
    using assms(2,3) res(1) by (simp add: assms(1) scripted_nth [of _ "length (calls w)"])
  from sn_call_accepted [OF this res(2)] show ?thesis by (simp add: res(3))
qed

lemma sn_call_refused:
  assumes "upstream E = scripted outs" and "length outs \<le> length (calls w)"
  shows "sn_call E u m p b w
         = (Inl (FetchError ''connection refused''),
            fetched E (mk_request E u m p b) (backoff 1 (fetched E (mk_request E u m p b) w)))"
  using assms by (intro sn_call_rejected) (simp_all add: scripted_past)

section \<open>The upstream client: retries\<close>

lemma sn_loop_failed_response:
  assumes up: "\<And>h. upstream E h = Responded res"
    and bad: "\<not> res_ok res"
  shows "n = rt - attempt \<Longrightarrow> attempt \<le> rt \<Longrightarrow>
    fst (sn_loop E using m p b False rt attempt l w)
        = Inl (UpstreamError (res_detail res) (rs_status res) (rs_text res))
    \<and> calls (snd (sn_loop E using m p b False rt attempt l w))
        = calls w @ replicate (Suc n) (mk_request E using m p b)"
proof (induction n arbitrary: attempt l w)
  case 0
  then have "\<not> attempt < rt" by simp
  with 0 show ?case
    by (subst (1 2) sn_loop.simps) (simp add: do_fetch_def up bad Let_def accepted_def)
next
  case (Suc n)
  then have lt: "attempt < rt" and n: "n = rt - (attempt + 1)" and le: "attempt + 1 \<le> rt"
    by simp_all
  show ?case
    using Suc.IH [OF n le] lt
    by (subst (1 2) sn_loop.simps)
       (simp add: do_fetch_def up bad Let_def backoff_def replicate_app_Cons_same accepted_def)
qed

text \<open>
  C1. The claim: a response with a 4xx status makes the call fail at once, with no retry,
  whatever the retry budget. The code does otherwise. Against an upstream that answers
  404 to everything, \<^verbatim>\<open>sn\<close> with a budget of \<open>n\<close> retries sends the same request
  \<open>n + 1\<close> times before it throws: the error thrown for the failed response is caught by
  the \<^verbatim>\<open>catch\<close> clause of the enclosing \<^verbatim>\<open>try\<close>, which retries while the budget lasts.
\<close>

theorem sn_retries_client_error:
  "calls (snd (sn (E\<lparr>upstream := \<lambda>h. Responded
                      \<lparr>rs_status = 404, rs_statusText = st, rs_text = body, rs_parsed = pj\<rparr>\<rparr>)
                 using m p b \<lparr>returnRaw = False, timeoutMs = t, retries = n\<rparr> w))
   = calls w @ replicate (Suc n) (mk_request E using m p b)"
proof -
  define res where "res = \<lparr>rs_status = 404, rs_statusText = st, rs_text = body, rs_parsed = pj\<rparr>"
  define E' where "E' = E\<lparr>upstream := \<lambda>h. Responded res\<rparr>"
  have up: "\<And>h. upstream E' h = Responded res" by (simp add: E'_def)
  have bad: "\<not> res_ok res" by (simp add: res_def res_ok_def)
  have "calls (snd (sn_loop E' using m p b False n 0 None w))
        = calls w @ replicate (Suc n) (mk_request E' using m p b)"
    using sn_loop_failed_response [OF up bad, of n n 0] by simp
  then show ?thesis by (simp add: sn_def mk_request_def E'_def res_def)
qed

section \<open>Reference resolver: identifiers pass through\<close>

text \<open>
  C5. An input string that already has the shape of an identifier (32 hexadecimal
  characters) is returned unchanged by \<^verbatim>\<open>resolveRef\<close>, and the state of the process,
  the list of upstream requests included, is what it was: no upstream call is made.
\<close>

theorem resolveRef_sys_id_unchanged:
  assumes "SYSID_RE s"
  shows "resolveRef E using forceTable (JStr s) w = (Inr (JStr s), w)
         \<and> calls (snd (resolveRef E using forceTable (JStr s) w)) = calls w"
  using assms by (auto simp: resolveRef_def SYSID_RE_def Let_def)

theorem resolveRef_sys_id_unchanged_witness:
  "SYSID_RE ''6816f79cc0a8016401c5a33be04be441''
   \<and> resolveRef (demo_env (scripted [])) (adminCreds (demo_env (scripted []))) ''sys_user''
        (JStr ''6816f79cc0a8016401c5a33be04be441'') start
      = (Inr (JStr ''6816f79cc0a8016401c5a33be04be441''), start)"
proof -
  have h: "SYSID_RE ''6816f79cc0a8016401c5a33be04be441''" by code_simp
  show ?thesis
    using h resolveRef_sys_id_unchanged [OF h, of "demo_env (scripted [])" "adminCreds (demo_env (scripted []))"
        "''sys_user''" start]
    by simp
qed

section \<open>Authentication: the token in the query string\<close>

text \<open>
  C9. A request whose \<^verbatim>\<open>Authorization\<close> header does not start with \<^verbatim>\<open>Bearer \<close> and
  whose query string carries a \<^verbatim>\<open>token\<close> parameter that is the key of a live session is
  let through by \<^verbatim>\<open>requireAuth\<close> with that session, exactly as the same token sent in a
  bearer header is, and the routes behind it run their handlers for that session. (The keys
  of the session map are the 48-character tokens that login generates; the empty string is
  not one.)
\<close>

theorem requireAuth_query_token:
  assumes "take 7 (case hd_authorization req of Some h \<Rightarrow> h | None \<Rightarrow> []) \<noteq> ''Bearer ''"
    and "q_token req = JStr t" and "t \<noteq> []" and "sessions w t = Some session"
  shows "requireAuth w req = Inr (session, JStr t)
       \<and> requireAuth w req
           = requireAuth w (req\<lparr>hd_authorization := Some (''Bearer '' @ t), q_token := q\<rparr>)
       \<and> activity_route E req w = activity_handler E session (p_table req) (p_sys_id req) w
       \<and> update_route E req w
           = update_handler E session (p_table req) (p_sys_id req) (rq_json req) w"
proof -
  have "requireAuth w req = Inr (session, JStr t)"
    using assms by (simp add: requireAuth_def header_token_def js_or_def)
  moreover have "requireAuth w (req\<lparr>hd_authorization := Some (''Bearer '' @ t), q_token := q\<rparr>)
                 = Inr (session, JStr t)"
    using assms by (simp add: requireAuth_def header_token_def)
  ultimately show ?thesis
    by (simp add: activity_route_def update_route_def)
qed

theorem requireAuth_query_token_witness:
  "requireAuth start
     \<lparr>hd_authorization = None, q_token = JStr jdoe_token, p_table = ''incident'',
      p_sys_id = incident_id, rq_json = JUndefined\<rparr>
   = Inr (jdoe, JStr jdoe_token)"
  using requireAuth_query_token [of
      "\<lparr>hd_authorization = None, q_token = JStr jdoe_token, p_table = ''incident'',
        p_sys_id = incident_id, rq_json = JUndefined\<rparr>"
      jdoe_token start jdoe JUndefined "demo_env (scripted [])"]
  by (simp add: start_def jdoe_token_def)

section \<open>Display-name cache: expired entries\<close>

lemma resolve_unexpired:
  assumes "truthy sys_id" "nameCache w (cache_key table sys_id) = Some hit" "clock w < ce_exp hit"
  shows "resolveDisplayName E u table sys_id w = (ce_name hit, w)"
  using assms
  by (simp add: resolveDisplayName_def beginDisplayName_def endDisplayName_def Let_def)

lemma resolve_refetch:
  assumes "truthy sys_id"
    and "\<not> (\<exists>hit. nameCache w (cache_key table sys_id) = Some hit \<and> clock w < ce_exp hit)"
  shows "resolveDisplayName E u table sys_id w
         = fetchDisplayName E u table sys_id (cache_key table sys_id) (clock w) w"
  using assms
  by (auto simp: resolveDisplayName_def beginDisplayName_def endDisplayName_def Let_def
        split: option.splits)

lemma fetch_calls:
  "length (calls w) < length (calls (snd (fetchDisplayName E u table sys_id key now w)))"
  using sn_call_frame(3) [of w E u "''GET''" "name_path table sys_id" JUndefined]
  by (auto simp: fetchDisplayName_def Let_def split: prod.splits sum.splits)

lemma fetch_label_blind:
  "fst (fetchDisplayName E u table sys_id key now (w\<lparr>nameCache := c\<rparr>))
   = fst (fetchDisplayName E u table sys_id key now w)"
  by (auto simp: fetchDisplayName_def sn_call_cache_blind Let_def split: prod.splits sum.splits)

lemma fetch_requests:
  "calls (snd (fetchDisplayName E u table sys_id key now w))
   = calls (snd (sn_call E u ''GET'' (name_path table sys_id) JUndefined w))"
  by (auto simp: fetchDisplayName_def Let_def split: prod.splits sum.splits)

lemma fetch_result:
  "(case fst (sn_call E u ''GET'' (name_path table sys_id) JUndefined w) of
      Inr r \<Rightarrow>
        fst (fetchDisplayName E u table sys_id key now w)
          = js_or (oget (oget r ''result'') ''name'')
                  (js_or (oget (oget r ''result'') ''user_name'') sys_id)
        \<and> nameCache (snd (fetchDisplayName E u table sys_id key now w))
          = (nameCache w)(key \<mapsto>
               \<lparr>ce_name = js_or (oget (oget r ''result'') ''name'')
                                (js_or (oget (oget r ''result'') ''user_name'') sys_id),
                ce_exp = now + 5 * 60 * 1000\<rparr>)
    | Inl e \<Rightarrow> fst (fetchDisplayName E u table sys_id key now w) = sys_id
               \<and> nameCache (snd (fetchDisplayName E u table sys_id key now w)) = nameCache w)"
  using sn_call_frame(1) [of E u "''GET''" "name_path table sys_id" JUndefined w]
  by (auto simp: fetchDisplayName_def Let_def NAME_TTL_MS_def split: prod.splits sum.splits)

lemma stale_world_facts:
  "truthy user_id"
  "nameCache stale_world (cache_key ''sys_user'' user_id) = Some stale_hit"
  "ce_exp stale_hit \<le> clock stale_world"
  "calls stale_world = []"
  by (simp_all add: user_id_def stale_world_def stale_hit_def start_def)

text \<open>
  C6, as the code has it. For an identifier that is not empty:
  \<^item> \<^verbatim>\<open>_resolveDisplayName\<close> makes no upstream request exactly when the cache holds an
    entry for the key whose expiry lies in the future, and then it returns the cached label
    and changes nothing;
  \<^item> when the entry has expired, the label returned does not depend on the label in the
    cache, and the requests made are those of one read of the record through \<^verbatim>\<open>sn\<close>; if
    that read succeeds, the label returned is the \<^verbatim>\<open>name\<close> of the record, else its
    \<^verbatim>\<open>user_name\<close>, else the identifier, and the entry is replaced by this label with an
    expiry five minutes after the time of the call; if the read fails, the identifier
    itself is returned and the cache is left as it was.
\<close>

theorem expired_entry_refetched:
  assumes "truthy sys_id"
  shows
   "(calls (snd (resolveDisplayName E u table sys_id w)) = calls w)
      = (\<exists>hit. nameCache w (cache_key table sys_id) = Some hit \<and> clock w < ce_exp hit)
    \<and> (\<forall>hit. nameCache w (cache_key table sys_id) = Some hit \<and> clock w < ce_exp hit
          \<longrightarrow> resolveDisplayName E u table sys_id w = (ce_name hit, w))
    \<and> (\<forall>hit. nameCache w (cache_key table sys_id) = Some hit \<and> ce_exp hit \<le> clock w \<longrightarrow>
          fst (resolveDisplayName E u table sys_id
                 (w\<lparr>nameCache := (nameCache w)(cache_key table sys_id \<mapsto> hit\<lparr>ce_name := stale\<rparr>)\<rparr>))
            = fst (resolveDisplayName E u table sys_id w)
          \<and> calls (snd (resolveDisplayName E u table sys_id w))
            = calls (snd (sn_call E u ''GET'' (name_path table sys_id) JUndefined w))
          \<and> (case fst (sn_call E u ''GET'' (name_path table sys_id) JUndefined w) of
                Inr r \<Rightarrow>
                  fst (resolveDisplayName E u table sys_id w)
                    = js_or (oget (oget r ''result'') ''name'')
                            (js_or (oget (oget r ''result'') ''user_name'') sys_id)
                  \<and> nameCache (snd (resolveDisplayName E u table sys_id w))
                    = (nameCache w)(cache_key table sys_id \<mapsto>
                         \<lparr>ce_name = js_or (oget (oget r ''result'') ''name'')
                                          (js_or (oget (oget r ''result'') ''user_name'') sys_id),
                          ce_exp = clock w + 5 * 60 * 1000\<rparr>)
              | Inl e \<Rightarrow> fst (resolveDisplayName E u table sys_id w) = sys_id
                          \<and> nameCache (snd (resolveDisplayName E u table sys_id w))
                            = nameCache w))"
proof (intro conjI allI impI)
  show "(calls (snd (resolveDisplayName E u table sys_id w)) = calls w)
      = (\<exists>hit. nameCache w (cache_key table sys_id) = Some hit \<and> clock w < ce_exp hit)"
  proof (cases "\<exists>hit. nameCache w (cache_key table sys_id) = Some hit \<and> clock w < ce_exp hit")
    case True
    then show ?thesis using resolve_unexpired [OF assms] by auto
  next
    case False
    from fetch_calls [of w E u table sys_id "cache_key table sys_id" "clock w"]
    show ?thesis by (auto simp: resolve_refetch [OF assms False] False)
  qed
next
  fix hit
  assume "nameCache w (cache_key table sys_id) = Some hit \<and> clock w < ce_exp hit"
  then show "resolveDisplayName E u table sys_id w = (ce_name hit, w)"
    using resolve_unexpired [OF assms] by simp
next
  fix hit
  assume h: "nameCache w (cache_key table sys_id) = Some hit \<and> ce_exp hit \<le> clock w"
  then have no: "\<not> (\<exists>hit. nameCache w (cache_key table sys_id) = Some hit \<and> clock w < ce_exp hit)"
    by auto
  let ?w' = "w\<lparr>nameCache := (nameCache w)(cache_key table sys_id \<mapsto> hit\<lparr>ce_name := stale\<rparr>)\<rparr>"
  have no': "\<not> (\<exists>hit. nameCache ?w' (cache_key table sys_id) = Some hit \<and> clock ?w' < ce_exp hit)"
    using h by auto
  show "fst (resolveDisplayName E u table sys_id ?w') = fst (resolveDisplayName E u table sys_id w)"
    by (simp add: resolve_refetch [OF assms no] resolve_refetch [OF assms no'] fetch_label_blind)
  show "calls (snd (resolveDisplayName E u table sys_id w))
            = calls (snd (sn_call E u ''GET'' (name_path table sys_id) JUndefined w))"
    unfolding resolve_refetch [OF assms no] by (rule fetch_requests)
  show "(case fst (sn_call E u ''GET'' (name_path table sys_id) JUndefined w) of
                Inr r \<Rightarrow>
                  fst (resolveDisplayName E u table sys_id w)
                    = js_or (oget (oget r ''result'') ''name'')
                            (js_or (oget (oget r ''result'') ''user_name'') sys_id)
                  \<and> nameCache (snd (resolveDisplayName E u table sys_id w))
                    = (nameCache w)(cache_key table sys_id \<mapsto>
                         \<lparr>ce_name = js_or (oget (oget r ''result'') ''name'')
                                          (js_or (oget (oget r ''result'') ''user_name'') sys_id),
                          ce_exp = clock w + 5 * 60 * 1000\<rparr>)
              | Inl e \<Rightarrow> fst (resolveDisplayName E u table sys_id w) = sys_id
                          \<and> nameCache (snd (resolveDisplayName E u table sys_id w))
                            = nameCache w)"
    unfolding resolve_refetch [OF assms no] by (rule fetch_result)
qed

theorem expired_entry_refetched_witness:
  "nameCache stale_world (cache_key ''sys_user'' user_id) = Some stale_hit
   \<and> ce_exp stale_hit \<le> clock stale_world
   \<and> calls (snd (resolveDisplayName names_env (adminCreds names_env) ''sys_user'' user_id stale_world))
       \<noteq> calls stale_world
   \<and> fst (resolveDisplayName names_env (adminCreds names_env) ''sys_user'' user_id stale_world)
       = JStr ''John Doe''
   \<and> nameCache (snd (resolveDisplayName names_env (adminCreds names_env) ''sys_user'' user_id
                       stale_world)) (cache_key ''sys_user'' user_id)
     = Some \<lparr>ce_name = JStr ''John Doe'', ce_exp = 700000\<rparr>
   \<and> resolveDisplayName names_env (adminCreds names_env) ''sys_user'' user_id
        (stale_world\<lparr>clock := 200000\<rparr>)
     = (JStr ''J. Doe'', stale_world\<lparr>clock := 200000\<rparr>)"
proof -
  have ok: "fst (sn_call names_env (adminCreds names_env) ''GET'' (name_path ''sys_user'' user_id)
                   JUndefined stale_world)
            = Inr (JObj [(''result'', JObj [(''name'', JStr ''John Doe'')])])"
    by (subst sn_call_scripted
          [where outs = "[answer 200 (JObj [(''result'', JObj [(''name'', JStr ''John Doe'')])])]"])
       (simp_all add: names_env_def demo_env_def stale_world_facts oget_def nullish_def field_def)
  have fresh: "nameCache (stale_world\<lparr>clock := 200000\<rparr>) (cache_key ''sys_user'' user_id)
                 = Some stale_hit"
    "clock (stale_world\<lparr>clock := 200000\<rparr>) < ce_exp stale_hit"
    "ce_name stale_hit = JStr ''J. Doe''"
    by (simp_all add: stale_world_facts stale_hit_def)
  have label: "js_or (oget (oget (JObj [(''result'', JObj [(''name'', JStr ''John Doe'')])])
                        ''result'') ''name'') x = JStr ''John Doe''" for x
    by (simp add: js_or_def oget_def nullish_def field_def)
  have clk: "clock stale_world = 400000" by (simp add: stale_world_def)
  show ?thesis
    using stale_world_facts(2,3) ok fresh
      expired_entry_refetched [OF stale_world_facts(1), of names_env "adminCreds names_env"
        "''sys_user''" stale_world JNull]
      expired_entry_refetched [OF stale_world_facts(1), of names_env "adminCreds names_env"
        "''sys_user''" "stale_world\<lparr>clock := 200000\<rparr>" JNull]
    by (auto simp: label clk)
qed

text \<open>
  The claim as stated also says that the expired entry is replaced. With the upstream down
  it is not: the identifier is returned and the expired entry stays in the cache.
\<close>

theorem expired_entry_replaced_counterexample:
  "nameCache stale_world (cache_key ''sys_user'' user_id) = Some stale_hit
   \<and> ce_exp stale_hit \<le> clock stale_world
   \<and> fst (resolveDisplayName down_env (adminCreds down_env) ''sys_user'' user_id stale_world)
       = user_id
   \<and> nameCache (snd (resolveDisplayName down_env (adminCreds down_env) ''sys_user'' user_id
                       stale_world)) (cache_key ''sys_user'' user_id)
     = Some stale_hit"
proof -
  have no: "\<not> (\<exists>hit. nameCache stale_world (cache_key ''sys_user'' user_id) = Some hit
                     \<and> clock stale_world < ce_exp hit)"
    using stale_world_facts(2,3) by auto
  have "sn_call down_env (adminCreds down_env) ''GET'' (name_path ''sys_user'' user_id)
          JUndefined stale_world
        = (Inl (FetchError ''connection refused''),
           fetched down_env (mk_request down_env (adminCreds down_env) ''GET''
               (name_path ''sys_user'' user_id) JUndefined)
             (backoff 1 (fetched down_env (mk_request down_env (adminCreds down_env) ''GET''
               (name_path ''sys_user'' user_id) JUndefined) stale_world)))"
    by (rule sn_call_refused [where outs = "[]"]) (simp_all add: down_env_def demo_env_def)
  then show ?thesis
    using stale_world_facts(2,3)
    by (simp add: resolve_refetch [OF stale_world_facts(1) no] fetchDisplayName_def)
qed

section \<open>Activity: a failed feed fails the request\<close>



section \<open>Activity: the audit rows\<close>

lemma strip_Nil [simp]: "strip ps [] = []"
proof -
  have "find (starts_with []) ps = None"
    by (simp add: find_None_iff starts_with_def)
  then show ?thesis by (subst strip.simps) simp
qed

lemma trim_Nil [simp]: "trim [] = []"
  by (simp add: trim_def)

lemma unwrap_empty: "empty_value v \<Longrightarrow> unwrapAuditVal v = []"
  by (auto simp: empty_value_def unwrapAuditVal_def)

lemma not_sysid_Nil [simp]: "\<not> SYSID_RE []"
  by (simp add: SYSID_RE_def)

lemma resolve_names_old_empty:
  "fst (fst (resolve_names E fl [] rawNew w)) = JStr DASH"
  by (simp add: resolve_names_def Let_def sys_id_or_null_def placeholder_def split: prod.splits)

lemma resolve_names_new_empty:
  "snd (fst (resolve_names E fl rawOld [] w)) = JStr DASH"
  by (simp add: resolve_names_def Let_def sys_id_or_null_def placeholder_def split: prod.splits)

lemma resolve_names_plain:
  "fl \<noteq> ''assigned_to'' \<Longrightarrow> fl \<noteq> ''assignment_group'' \<Longrightarrow>
   resolve_names E fl rawOld rawNew w = ((placeholder rawOld, placeholder rawNew), w)"
  by (simp add: resolve_names_def Let_def)

lemma filterE_Inr:
  "filterE p xs = Inr ys \<Longrightarrow> ys = filter (\<lambda>x. p x = Inr True) xs"
  by (induction xs arbitrary: ys) (auto simp: bindE_def split: sum.splits if_splits)

lemma mapE_get_Inr:
  "mapE (\<lambda>x. get x k) xs = Inr ys \<Longrightarrow> ys = map (\<lambda>x. field x k) xs"
  by (induction xs arbitrary: ys) (auto simp: bindE_def get_def split: sum.splits if_splits)

lemma is_state_row:
  "(bindE (fieldname_lc x) (\<lambda>fl. Inr (fl = ''state'')) = Inr True) = (fieldname_lc x = Inr ''state'')"
  by (cases "fieldname_lc x") (auto simp: bindE_def)

lemma stateSeenAt_Inr:
  assumes "stateSeenAt rows = Inr seen"
  shows "seen = map (\<lambda>x. field x ''sys_created_on'')
                  (filter (\<lambda>x. fieldname_lc x = Inr ''state'') rows)"
proof -
  from assms obtain ys where
    f: "filterE (\<lambda>x. bindE (fieldname_lc x) (\<lambda>fl. Inr (fl = ''state''))) rows = Inr ys"
    and m: "mapE (\<lambda>x. get x ''sys_created_on'') ys = Inr seen"
    by (auto simp: stateSeenAt_def bindE_def split: sum.splits)
  have "ys = filter (\<lambda>x. fieldname_lc x = Inr ''state'') rows"
    using filterE_Inr [OF f] by (simp add: is_state_row)
  with mapE_get_Inr [OF m] show ?thesis by simp
qed

lemma alias_skipped:
  assumes "fieldname_lc r = Inr ''incident_state''"
    and "set_has seen (field r ''sys_created_on'')"
  shows "audit_entry E seen r w = (Inr None, w)"
  using assms by (simp add: audit_entry_def)

lemma audit_loop_skip:
  assumes "\<And>w. audit_entry E seen a w = (Inr None, w)"
  shows "audit_loop E seen (filter (\<lambda>r. r \<noteq> a) rows) w = audit_loop E seen rows w"
  by (induction rows arbitrary: w) (auto simp: assms split: prod.splits sum.splits)

lemma stateSeenAt_drop_alias:
  assumes "fieldname_lc a = Inr ''incident_state''"
  shows "stateSeenAt (filter (\<lambda>r. r \<noteq> a) rows) = stateSeenAt rows"
proof -
  have p: "bindE (fieldname_lc a) (\<lambda>fl. Inr (fl = ''state'')) = Inr False"
    using assms by (simp add: bindE_def)
  have "filterE (\<lambda>x. bindE (fieldname_lc x) (\<lambda>fl. Inr (fl = ''state''))) (filter (\<lambda>r. r \<noteq> a) rows)
      = filterE (\<lambda>x. bindE (fieldname_lc x) (\<lambda>fl. Inr (fl = ''state''))) rows"
    using p by (induction rows) (auto simp: bindE_def split: sum.splits)
  then show ?thesis by (simp add: stateSeenAt_def)
qed

lemma state_entry:
  assumes "fieldname_lc s = Inr ''state''"
  shows "\<exists>e. audit_entry E seen s w = (Inr (Some e), w)
             \<and> e_ts e = field s ''sys_created_on'' \<and> e_type e = ''FIELD''"
  using assms by (simp add: audit_entry_def resolve_names_plain)

lemma audit_rows:
  "bindE (get (JObj [(''result'', JArr rows)]) ''result'') (\<lambda>ar. as_array (js_or ar (JArr [])))
     = Inr rows"
  by (simp add: get_def nullish_def field_def js_or_def bindE_def)

lemma merge_feeds_rows:
  "merge_feeds E jf (JObj [(''result'', JArr rows)]) w =
     (case bindE (get jf ''result'') (\<lambda>jr.
             bindE (iterate (js_or jr (JArr []))) (mapE (journal_entry E))) of
        Inl e \<Rightarrow> (Inl e, w)
      | Inr jes \<Rightarrow>
          (case stateSeenAt rows of
             Inl e \<Rightarrow> (Inl e, w)
           | Inr seen \<Rightarrow>
               (case audit_loop E seen rows w of
                  (Inl e, w1) \<Rightarrow> (Inl e, w1)
                | (Inr aes, w1) \<Rightarrow> (Inr (js_sort (newest_first E) (jes @ aes)), w1))))"
  unfolding merge_feeds_def audit_rows by (simp cong: sum.case_cong)

lemma no_journal:
  "bindE (get (JObj [(''result'', JArr [])]) ''result'') (\<lambda>jr.
      bindE (iterate (js_or jr (JArr []))) (mapE (journal_entry E))) = Inr []"
  by (simp add: get_def nullish_def field_def js_or_def bindE_def)

lemma rows_kinds:
  "fieldname_lc state_row = Inr ''state''"
  "fieldname_lc alias_row = Inr ''incident_state''"
  "fieldname_lc late_alias_row = Inr ''incident_state''"
  by code_simp+

lemma rows_ts:
  "field state_row ''sys_created_on'' = JStr ''2024-05-01 10:00:00''"
  "field alias_row ''sys_created_on'' = JStr ''2024-05-01 10:00:00''"
  "field late_alias_row ''sys_created_on'' = JStr ''2024-05-01 11:00:00''"
  by (simp_all add: field_def state_row_def alias_row_def late_alias_row_def)

lemma late_alias_values:
  "unwrapAuditVal (field late_alias_row ''oldvalue'') = ''2''"
  "unwrapAuditVal (field late_alias_row ''newvalue'') = []"
  "field late_alias_row ''sys_created_by'' = JStr ''asmith''"
  by code_simp+

section \<open>Activity: the sort\<close>

lemma set_insert_by [simp]: "set (insert_by cmp x ys) = insert x (set ys)"
  by (induction ys) auto

lemma set_js_sort [simp]: "set (js_sort cmp xs) = set xs"
  by (induction xs) (simp_all add: js_sort_def)

lemma length_js_sort [simp]: "length (js_sort cmp xs) = length xs"
proof -
  have "length (insert_by cmp x ys) = Suc (length ys)" for x ys
    by (induction ys) auto
  then show ?thesis by (induction xs) (simp_all add: js_sort_def)
qed






lemma demo_merge: "fst (merge_feeds feeds_env journal_feed audit_feed w) = Inr demo_entries"
  by code_simp

lemma handler_reply:
  assumes "activity_entries E session table sys_id w = (Inr es, w')"
  shows "activity_handler E session table sys_id w
         = (Json 200 (JObj [(''ok'', JBool True),
                            (''result'', JStr (join NL (map render_entry es)))]), w')"
  using assms by (simp add: activity_handler_def)



section \<open>Activity: from a row of the feed to a line of the narrative\<close>

lemma strip_id: "find (starts_with s) ps = None \<Longrightarrow> strip ps s = s"
  by (subst strip.simps) simp

lemma trim_bare: "bare s \<Longrightarrow> trim s = s"
  by (simp add: trim_def bare_def strip_id)

lemma join_mem: "x \<in> set xs \<Longrightarrow> \<exists>pre post. join sep xs = pre @ x @ post"
proof (induction sep xs rule: join.induct)
  case (1 sep)
  then show ?case by simp
next
  case (2 sep y)
  then have "join sep [y] = [] @ x @ []" by simp
  then show ?case by blast
next
  case (3 sep y z zs)
  show ?case
  proof (cases "x = y")
    case True
    then have "join sep (y # z # zs) = [] @ x @ (sep @ join sep (z # zs))" by simp
    then show ?thesis by blast
  next
    case False
    with 3 obtain pre post where "join sep (z # zs) = pre @ x @ post" by auto
    then have "join sep (y # z # zs) = (y @ sep @ pre) @ x @ post" by simp
    then show ?thesis by blast
  qed
qed

lemma audit_loop_mem:
  "audit_loop E seen rows w = (Inr aes, w') \<Longrightarrow> r \<in> set rows \<Longrightarrow>
   \<exists>wr oe wr'. audit_entry E seen r wr = (Inr oe, wr') \<and> (\<forall>e. oe = Some e \<longrightarrow> e \<in> set aes)"
proof (induction rows arbitrary: w aes)
  case Nil
  then show ?case by simp
next
  case (Cons x rows)
  from Cons.prems(1) obtain oe w1 es where
    x: "audit_entry E seen x w = (Inr oe, w1)"
    and rest: "audit_loop E seen rows w1 = (Inr es, w')"
    and aes: "aes = (case oe of None \<Rightarrow> es | Some e \<Rightarrow> e # es)"
    by (auto split: prod.splits sum.splits)
  show ?case
  proof (cases "r = x")
    case True
    with x aes show ?thesis by (auto split: option.splits)
  next
    case False
    with Cons.prems(2) have "r \<in> set rows" by simp
    from Cons.IH [OF rest this] obtain wr oe' wr' where
      "audit_entry E seen r wr = (Inr oe', wr')" "\<forall>e. oe' = Some e \<longrightarrow> e \<in> set es"
      by blast
    with aes show ?thesis by (auto split: option.splits)
  qed
qed

lemma audit_entry_shown:
  assumes "fieldname_lc r = Inr fl" "fl \<noteq> ''work_notes''" "fl \<noteq> ''comments''"
    and "\<not> (fl = ''incident_state'' \<and> set_has seen (field r ''sys_created_on''))"
    and "audit_entry E seen r wr = (Inr oe, wr')"
  shows "\<exists>ov nv. resolve_names E fl (unwrapAuditVal (field r ''oldvalue''))
                   (unwrapAuditVal (field r ''newvalue'')) wr = ((ov, nv), wr')
          \<and> oe = Some \<lparr>e_ts = field r ''sys_created_on'', e_by = field r ''sys_created_by'',
                       e_type = ''FIELD'',
                       e_text = (if fl = ''incident_state'' then ''state''
                                 else js_String (js_or (field r ''fieldname'') (JStr [])))
                          @ '': '' @ js_String ov @ ARROW @ js_String nv
                          @ cont_by (field r ''sys_created_by'')\<rparr>"
proof -
  obtain ov nv w1 where rn: "resolve_names E fl (unwrapAuditVal (field r ''oldvalue''))
      (unwrapAuditVal (field r ''newvalue'')) wr = ((ov, nv), w1)"
    by (metis prod.exhaust)
  with assms show ?thesis
    by (auto simp: audit_entry_def Let_def split: if_splits)
qed

lemma merge_feeds_parts:
  assumes "merge_feeds E jf au w = (Inr es, w')" and "field au ''result'' = JArr rows"
  shows "\<exists>jes seen aes. stateSeenAt rows = Inr seen \<and> audit_loop E seen rows w = (Inr aes, w')
           \<and> set es = set jes \<union> set aes"
proof -
  have nn: "\<not> nullish au" using assms(2) by (auto simp: nullish_def field_def)
  have rows: "bindE (get au ''result'') (\<lambda>ar. as_array (js_or ar (JArr []))) = Inr rows"
    using nn assms(2) by (simp add: get_def bindE_def js_or_def)
  from assms(1) show ?thesis
    unfolding merge_feeds_def rows
    by (auto split: sum.splits prod.splits)
qed

lemma handler_parts:
  assumes "sn_call E (pickActingCreds E session) ''GET'' (journal_path sys_id) JUndefined w = (Inr jf, w1)"
    and "sn_call E (adminCreds E) ''GET'' (audit_path sys_id) JUndefined w1 = (Inr au, w2)"
    and "fst (activity_handler E session table sys_id w) = Json 200 body"
  shows "\<exists>es w3. merge_feeds E jf au w2 = (Inr es, w3)
           \<and> body = JObj [(''ok'', JBool True), (''result'', JStr (join NL (map render_entry es)))]"
  using assms
  by (auto simp: activity_handler_def activity_entries_def split: sum.splits prod.splits)

lemma shown_line:
  assumes feeds: "sn_call E (pickActingCreds E session) ''GET'' (journal_path sys_id) JUndefined w = (Inr jf, w1)"
      "sn_call E (adminCreds E) ''GET'' (audit_path sys_id) JUndefined w1 = (Inr au, w2)"
    and ok: "fst (activity_handler E session table sys_id w) = Json 200 body"
    and rows: "field au ''result'' = JArr rows" "r \<in> set rows"
    and fl: "fieldname_lc r = Inr fl" "fl \<noteq> ''work_notes''" "fl \<noteq> ''comments''"
    and surv: "fl = ''incident_state'' \<longrightarrow>
                  \<not> (primitive (field r ''sys_created_on'')
                      \<and> (\<exists>x \<in> set rows. fieldname_lc x = Inr ''state''
                            \<and> field x ''sys_created_on'' = field r ''sys_created_on''))"
  shows "\<exists>narrative pre post ov nv wr wr'.
           body = JObj [(''ok'', JBool True), (''result'', JStr narrative)]
         \<and> resolve_names E fl (unwrapAuditVal (field r ''oldvalue''))
                   (unwrapAuditVal (field r ''newvalue'')) wr = ((ov, nv), wr')
         \<and> narrative = pre @ ''['' @ js_String (field r ''sys_created_on'') @ ''] ''
               @ js_String (field r ''sys_created_by'') @ '' '' @ DASH @ '' FIELD'' @ NL
               @ (if fl = ''incident_state'' then ''state''
                  else js_String (js_or (field r ''fieldname'') (JStr [])))
               @ '': '' @ js_String ov @ ARROW @ js_String nv
               @ cont_by (field r ''sys_created_by'') @ post"
proof -
  from handler_parts [OF feeds ok] obtain es w3 where
    mf: "merge_feeds E jf au w2 = (Inr es, w3)"
    and body: "body = JObj [(''ok'', JBool True), (''result'', JStr (join NL (map render_entry es)))]"
    by blast
  from merge_feeds_parts [OF mf rows(1)] obtain jes seen aes where
    seen: "stateSeenAt rows = Inr seen" and loop: "audit_loop E seen rows w2 = (Inr aes, w3)"
    and es: "set es = set jes \<union> set aes"
    by blast
  have keep: "\<not> (fl = ''incident_state'' \<and> set_has seen (field r ''sys_created_on''))"
    using surv by (auto simp: set_has_def stateSeenAt_Inr [OF seen])
  from audit_loop_mem [OF loop rows(2)] obtain wr oe wr' where
    ae: "audit_entry E seen r wr = (Inr oe, wr')" and mem: "\<forall>e. oe = Some e \<longrightarrow> e \<in> set aes"
    by blast
  from audit_entry_shown [OF fl keep ae] obtain ov nv where
    rn: "resolve_names E fl (unwrapAuditVal (field r ''oldvalue''))
                   (unwrapAuditVal (field r ''newvalue'')) wr = ((ov, nv), wr')"
    and oe: "oe = Some \<lparr>e_ts = field r ''sys_created_on'', e_by = field r ''sys_created_by'',
                       e_type = ''FIELD'',
                       e_text = (if fl = ''incident_state'' then ''state''
                                 else js_String (js_or (field r ''fieldname'') (JStr [])))
                          @ '': '' @ js_String ov @ ARROW @ js_String nv
                          @ cont_by (field r ''sys_created_by'')\<rparr>"
    by blast
  let ?e = "\<lparr>e_ts = field r ''sys_created_on'', e_by = field r ''sys_created_by'',
                       e_type = ''FIELD'',
                       e_text = (if fl = ''incident_state'' then ''state''
                                 else js_String (js_or (field r ''fieldname'') (JStr [])))
                          @ '': '' @ js_String ov @ ARROW @ js_String nv
                          @ cont_by (field r ''sys_created_by'')\<rparr>"
  have "?e \<in> set es" using mem oe es by simp
  then have "render_entry ?e \<in> set (map render_entry es)" by simp
  from join_mem [OF this, of NL] obtain pre post where
    "join NL (map render_entry es) = pre @ render_entry ?e @ post" by blast
  then have "join NL (map render_entry es)
      = pre @ ''['' @ js_String (field r ''sys_created_on'') @ ''] ''
               @ js_String (field r ''sys_created_by'') @ '' '' @ DASH @ '' FIELD'' @ NL
               @ (if fl = ''incident_state'' then ''state''
                  else js_String (js_or (field r ''fieldname'') (JStr [])))
               @ '': '' @ js_String ov @ ARROW @ js_String nv
               @ cont_by (field r ''sys_created_by'') @ post"
    by (simp add: render_entry_def)
  with body rn show ?thesis by blast
qed

lemma demo_calls:
  "sn_call feeds_env (pickActingCreds feeds_env jdoe) ''GET'' (journal_path incident_id)
     JUndefined start = (Inr journal_feed, after_journal)"
  "sn_call feeds_env (adminCreds feeds_env) ''GET'' (audit_path incident_id) JUndefined
     after_journal = (Inr audit_feed, after_audit)"
proof -
  have up: "upstream feeds_env = scripted [answer 200 journal_feed, answer 200 audit_feed]"
    by (simp add: feeds_env_def demo_env_def)
  show "sn_call feeds_env (pickActingCreds feeds_env jdoe) ''GET'' (journal_path incident_id)
     JUndefined start = (Inr journal_feed, after_journal)"
    by (simp add: sn_call_scripted [OF up] start_def journal_feed_def after_journal_def
          oget_def nullish_def field_def)
  show "sn_call feeds_env (adminCreds feeds_env) ''GET'' (audit_path incident_id) JUndefined
     after_journal = (Inr audit_feed, after_audit)"
    by (simp add: sn_call_scripted [OF up] start_def audit_feed_def after_journal_def
          after_audit_def oget_def nullish_def field_def)
qed

lemma demo_activity:
  "fst (activity_entries feeds_env jdoe ''incident'' incident_id start) = Inr demo_entries"
  by (simp add: activity_entries_def demo_calls demo_merge)

lemma demo_reply:
  "fst (activity_handler feeds_env jdoe ''incident'' incident_id start)
   = Json 200 (JObj [(''ok'', JBool True),
                     (''result'', JStr (join NL (map render_entry demo_entries)))])"
proof -
  have "activity_entries feeds_env jdoe ''incident'' incident_id start
        = (Inr demo_entries, snd (activity_entries feeds_env jdoe ''incident'' incident_id start))"
    using demo_activity by (simp add: prod_eq_iff)
  from handler_reply [OF this] show ?thesis by simp
qed

lemma audit_only_reply:
  "fst (activity_handler (audit_only rows) jdoe ''incident'' incident_id start)
   = (case fst (merge_feeds (audit_only rows) (JObj [(''result'', JArr [])])
                  (JObj [(''result'', JArr rows)]) 
                  (fetched (audit_only rows)
                     (mk_request (audit_only rows) (adminCreds (audit_only rows)) ''GET''
                        (audit_path incident_id) JUndefined)
                     (fetched (audit_only rows)
                        (mk_request (audit_only rows) (pickActingCreds (audit_only rows) jdoe)
                           ''GET'' (journal_path incident_id) JUndefined) start))) of
        Inr es \<Rightarrow> Json 200 (JObj [(''ok'', JBool True),
                                   (''result'', JStr (join NL (map render_entry es)))])
      | Inl e \<Rightarrow> Failure 500 ''Activity fetch failed'' e)"
proof -
  have up: "upstream (audit_only rows)
            = scripted [answer 200 (JObj [(''result'', JArr [])]),
                        answer 200 (JObj [(''result'', JArr rows)])]"
    by (simp add: audit_only_def demo_env_def)
  show ?thesis
    unfolding activity_handler_def activity_entries_def
    by (simp add: sn_call_scripted [OF up] start_def oget_def nullish_def field_def
          split: prod.splits sum.splits)
qed

lemma wrapped_merge:
  "fst (merge_feeds (audit_only rows) (JObj [(''result'', JArr [])])
          (JObj [(''result'', JArr [wrapped_row ''state'' ''1'' ''2'',
                                    wrapped_row ''incident_state'' ''1'' ''2''])]) w)
   = Inr [\<lparr>e_ts = wrap (JStr ''2024-05-01 10:00:00''), e_by = wrap (JStr ''jdoe''),
            e_type = ''FIELD'',
            e_text = ''[object Object]: 1'' @ ARROW @ ''2 #Cont. by [object Object]''\<rparr>,
          \<lparr>e_ts = wrap (JStr ''2024-05-01 10:00:00''), e_by = wrap (JStr ''jdoe''),
            e_type = ''FIELD'',
            e_text = ''[object Object]: 1'' @ ARROW @ ''2 #Cont. by [object Object]''\<rparr>]"
  "fst (merge_feeds (audit_only rows) (JObj [(''result'', JArr [])])
          (JObj [(''result'', JArr [object_stamp_row ''state'',
                                    object_stamp_row ''incident_state''])]) w)
   = Inr [\<lparr>e_ts = wrap (JStr ''2024-05-01 10:00:00''), e_by = JStr ''jdoe'',
            e_type = ''FIELD'', e_text = ''state: 1'' @ ARROW @ ''2 #Cont. by jdoe''\<rparr>,
          \<lparr>e_ts = wrap (JStr ''2024-05-01 10:00:00''), e_by = JStr ''jdoe'',
            e_type = ''FIELD'', e_text = ''state: 1'' @ ARROW @ ''2 #Cont. by jdoe''\<rparr>]"
  "fst (merge_feeds (audit_only rows) (JObj [(''result'', JArr [])])
          (JObj [(''result'', JArr [wrapped_row ''incident_state'' ''1'' ''2''])]) w)
   = Inr [\<lparr>e_ts = wrap (JStr ''2024-05-01 10:00:00''), e_by = wrap (JStr ''jdoe''),
            e_type = ''FIELD'',
            e_text = ''[object Object]: 1'' @ ARROW @ ''2 #Cont. by [object Object]''\<rparr>]"
  by code_simp+

section \<open>Activity: the alias of the status field\<close>

text \<open>
  With field names and timestamps that are strings, an \<^verbatim>\<open>incident_state\<close> row is
  discarded when the feed holds a \<^verbatim>\<open>state\<close> row with the same timestamp: the merged
  entries are those of the feed without it, and a feed of just these two rows, in either
  order, yields exactly one entry, a field change at that timestamp. An
  \<^verbatim>\<open>incident_state\<close> row that is not discarded has its line in the narrative under the
  name \<^verbatim>\<open>state\<close>.
\<close>

lemma alias_discarded:
  assumes s: "fieldname_lc s = Inr ''state''"
    and a: "fieldname_lc a = Inr ''incident_state''"
    and ts: "field s ''sys_created_on'' = JStr t" "field a ''sys_created_on'' = JStr t"
  shows "(s \<in> set rows \<longrightarrow>
            merge_feeds E jf (JObj [(''result'', JArr rows)]) w
          = merge_feeds E jf (JObj [(''result'', JArr (filter (\<lambda>r. r \<noteq> a) rows))]) w)
       \<and> (\<exists>e. merge_feeds E (JObj [(''result'', JArr [])]) (JObj [(''result'', JArr [s, a])]) w
                  = (Inr [e], w) \<and> e_ts e = JStr t \<and> e_type e = ''FIELD'')
       \<and> (\<exists>e. merge_feeds E (JObj [(''result'', JArr [])]) (JObj [(''result'', JArr [a, s])]) w
                  = (Inr [e], w) \<and> e_ts e = JStr t \<and> e_type e = ''FIELD'')"
proof (intro conjI impI)
  assume mem: "s \<in> set rows"
  have skip: "audit_loop E seen (filter (\<lambda>r. r \<noteq> a) rows) w' = audit_loop E seen rows w'"
    if "stateSeenAt rows = Inr seen" for seen w'
  proof -
    have "JStr t \<in> set seen"
      using mem s ts(1) by (force simp: stateSeenAt_Inr [OF that])
    then have "set_has seen (field a ''sys_created_on'')"
      by (simp add: set_has_def ts(2))
    then show ?thesis
      using alias_skipped [OF a] by (intro audit_loop_skip) simp
  qed
  show "merge_feeds E jf (JObj [(''result'', JArr rows)]) w
      = merge_feeds E jf (JObj [(''result'', JArr (filter (\<lambda>r. r \<noteq> a) rows))]) w"
    by (simp add: merge_feeds_rows stateSeenAt_drop_alias [OF a] skip
          split: sum.splits prod.splits)
next
  have seen: "stateSeenAt [s, a] = Inr [JStr t]" "stateSeenAt [a, s] = Inr [JStr t]"
    using s a ts by (simp_all add: stateSeenAt_def bindE_def get_def fieldname_lc_def
        split: sum.splits if_splits)
  have skip: "\<And>w'. audit_entry E [JStr t] a w' = (Inr None, w')"
    using alias_skipped [OF a, of "[JStr t]"] by (simp add: set_has_def ts(2))
  from state_entry [OF s, of E "[JStr t]" w] obtain e where
    e: "audit_entry E [JStr t] s w = (Inr (Some e), w)" "e_ts e = JStr t" "e_type e = ''FIELD''"
    by (auto simp: ts(1))
  show "\<exists>e. merge_feeds E (JObj [(''result'', JArr [])]) (JObj [(''result'', JArr [s, a])]) w
                  = (Inr [e], w) \<and> e_ts e = JStr t \<and> e_type e = ''FIELD''"
    using e by (simp add: merge_feeds_rows no_journal seen skip js_sort_def)
  show "\<exists>e. merge_feeds E (JObj [(''result'', JArr [])]) (JObj [(''result'', JArr [a, s])]) w
                  = (Inr [e], w) \<and> e_ts e = JStr t \<and> e_type e = ''FIELD''"
    using e by (simp add: merge_feeds_rows no_journal seen skip js_sort_def)
qed

lemma plain_alias_shown:
  assumes feeds: "sn_call E (pickActingCreds E session) ''GET'' (journal_path sys_id) JUndefined w = (Inr jf, w1)"
      "sn_call E (adminCreds E) ''GET'' (audit_path sys_id) JUndefined w1 = (Inr au, w2)"
    and ok: "fst (activity_handler E session table sys_id w) = Json 200 body"
    and rows: "field au ''result'' = JArr rows" "r \<in> set rows"
    and fl: "fieldname_lc r = Inr ''incident_state''"
    and surv: "\<not> (primitive (field r ''sys_created_on'')
                    \<and> (\<exists>x \<in> set rows. fieldname_lc x = Inr ''state''
                          \<and> field x ''sys_created_on'' = field r ''sys_created_on''))"
  shows "\<exists>narrative pre post.
           body = JObj [(''ok'', JBool True), (''result'', JStr narrative)]
         \<and> narrative = pre @ ''['' @ js_String (field r ''sys_created_on'') @ ''] ''
               @ js_String (field r ''sys_created_by'') @ '' '' @ DASH @ '' FIELD'' @ NL
               @ ''state: '' @ js_String (placeholder (unwrapAuditVal (field r ''oldvalue'')))
               @ ARROW @ js_String (placeholder (unwrapAuditVal (field r ''newvalue'')))
               @ cont_by (field r ''sys_created_by'') @ post"
proof -
  from shown_line [OF feeds ok rows fl] surv obtain narrative pre post ov nv wr wr' where
    body: "body = JObj [(''ok'', JBool True), (''result'', JStr narrative)]"
    and rn: "resolve_names E ''incident_state'' (unwrapAuditVal (field r ''oldvalue''))
                   (unwrapAuditVal (field r ''newvalue'')) wr = ((ov, nv), wr')"
    and line: "narrative = pre @ ''['' @ js_String (field r ''sys_created_on'') @ ''] ''
               @ js_String (field r ''sys_created_by'') @ '' '' @ DASH @ '' FIELD'' @ NL
               @ ''state'' @ '': '' @ js_String ov @ ARROW @ js_String nv
               @ cont_by (field r ''sys_created_by'') @ post"
    by auto
  from rn have "ov = placeholder (unwrapAuditVal (field r ''oldvalue''))"
    "nv = placeholder (unwrapAuditVal (field r ''newvalue''))"
    by (simp_all add: resolve_names_plain)
  with body line show ?thesis by auto
qed

text \<open>
  C3. The claim: of a \<^verbatim>\<open>state\<close> row and an \<^verbatim>\<open>incident_state\<close> row with the identical
  timestamp, the narrative shows one. The code does otherwise for rows of the form that its
  own request asks the upstream for. With every field of the two rows wrapped as an object,
  neither row is recognised by its name, \<^verbatim>\<open>String\<close> of an object being
  \<^verbatim>\<open>[object Object]\<close>, and the narrative has a line for each. With only the timestamps
  wrapped, both rows are recognised, but \<^verbatim>\<open>Set.prototype.has\<close> compares objects by
  identity, so the timestamp of the alias row is not found among those of the
  \<^verbatim>\<open>state\<close> rows, and the narrative shows the one transition twice under
  \<^verbatim>\<open>state\<close>.
\<close>

theorem alias_kept_when_wrapped:
  "fst (activity_handler
          (audit_only [wrapped_row ''state'' ''1'' ''2'', wrapped_row ''incident_state'' ''1'' ''2''])
          jdoe ''incident'' incident_id start)
   = Json 200 (JObj [(''ok'', JBool True), (''result'', JStr
       (''[[object Object]] [object Object] '' @ DASH @ '' FIELD'' @ NL
        @ ''[object Object]: 1'' @ ARROW @ ''2 #Cont. by [object Object]'' @ NL
        @ ''[[object Object]] [object Object] '' @ DASH @ '' FIELD'' @ NL
        @ ''[object Object]: 1'' @ ARROW @ ''2 #Cont. by [object Object]''))])
   \<and> fst (activity_handler
          (audit_only [object_stamp_row ''state'', object_stamp_row ''incident_state''])
          jdoe ''incident'' incident_id start)
   = Json 200 (JObj [(''ok'', JBool True), (''result'', JStr
       (''[[object Object]] jdoe '' @ DASH @ '' FIELD'' @ NL
        @ ''state: 1'' @ ARROW @ ''2 #Cont. by jdoe'' @ NL
        @ ''[[object Object]] jdoe '' @ DASH @ '' FIELD'' @ NL
        @ ''state: 1'' @ ARROW @ ''2 #Cont. by jdoe''))])"
  by (simp add: audit_only_reply wrapped_merge render_entry_def wrap_def)

text \<open>
  C10. The claim: an \<^verbatim>\<open>incident_state\<close> row that is not discarded is shown under the
  name \<^verbatim>\<open>state\<close>. The code does otherwise for a row of the form that its own request
  asks the upstream for: with the field name wrapped as an object, the handler, which takes
  \<^verbatim>\<open>String(r.fieldname || '')\<close> where it unwraps the old and the new value with
  \<^verbatim>\<open>unwrapAuditVal\<close>, does not recognise the alias, and the line of the row stands under
  \<^verbatim>\<open>[object Object]\<close>.
\<close>

theorem alias_name_lost_when_wrapped:
  "fst (activity_handler (audit_only [wrapped_row ''incident_state'' ''1'' ''2''])
          jdoe ''incident'' incident_id start)
   = Json 200 (JObj [(''ok'', JBool True), (''result'', JStr
       (''[[object Object]] [object Object] '' @ DASH @ '' FIELD'' @ NL
        @ ''[object Object]: 1'' @ ARROW @ ''2 #Cont. by [object Object]''))])"
  by (simp add: audit_only_reply wrapped_merge render_entry_def wrap_def)

section \<open>Activity: plain scalars and empty values\<close>

text \<open>
  C8, as the code has it. For a string, number or boolean, \<^verbatim>\<open>unwrapAuditVal\<close> returns
  the string form with the white space at both ends removed; it returns the string form
  unchanged when that neither begins nor ends with white space. And in the narrative that
  the handler replies with: for a row of the audit feed that is shown (it is not the echo
  of a journal field and not a discarded alias) and whose old value is \<^verbatim>\<open>null\<close>, absent
  or the empty string, the line of the row, after its timestamp, its author and its field
  name, shows the placeholder in the place of the old value; and likewise for the new
  value.
\<close>

theorem unwrap_scalar_trimmed:
  "(scalar v \<longrightarrow> unwrapAuditVal v = trim (js_String v))
   \<and> (scalar v \<and> bare (js_String v) \<longrightarrow> unwrapAuditVal v = js_String v)
   \<and> (sn_call E (pickActingCreds E session) ''GET'' (journal_path sys_id) JUndefined w
          = (Inr jf, w1)
      \<and> sn_call E (adminCreds E) ''GET'' (audit_path sys_id) JUndefined w1 = (Inr au, w2)
      \<and> fst (activity_handler E session table sys_id w) = Json 200 body
      \<and> field au ''result'' = JArr rows \<and> r \<in> set rows
      \<and> fieldname_lc r = Inr fl \<and> fl \<noteq> ''work_notes'' \<and> fl \<noteq> ''comments''
      \<and> (fl = ''incident_state'' \<longrightarrow>
            \<not> (primitive (field r ''sys_created_on'')
                \<and> (\<exists>x \<in> set rows. fieldname_lc x = Inr ''state''
                      \<and> field x ''sys_created_on'' = field r ''sys_created_on'')))
      \<longrightarrow> (\<exists>narrative.
             body = JObj [(''ok'', JBool True), (''result'', JStr narrative)]
           \<and> (empty_value (field r ''oldvalue'') \<longrightarrow>
                (\<exists>pre nv post. narrative =
                   pre @ ''['' @ js_String (field r ''sys_created_on'') @ ''] ''
                   @ js_String (field r ''sys_created_by'') @ '' '' @ DASH @ '' FIELD'' @ NL
                   @ (if fl = ''incident_state'' then ''state''
                      else js_String (js_or (field r ''fieldname'') (JStr [])))
                   @ '': '' @ DASH @ ARROW @ nv @ cont_by (field r ''sys_created_by'') @ post))
           \<and> (empty_value (field r ''newvalue'') \<longrightarrow>
                (\<exists>pre ov post. narrative =
                   pre @ ''['' @ js_String (field r ''sys_created_on'') @ ''] ''
                   @ js_String (field r ''sys_created_by'') @ '' '' @ DASH @ '' FIELD'' @ NL
                   @ (if fl = ''incident_state'' then ''state''
                      else js_String (js_or (field r ''fieldname'') (JStr [])))
                   @ '': '' @ ov @ ARROW @ DASH @ cont_by (field r ''sys_created_by'') @ post))))"
proof (intro conjI impI)
  assume "scalar v"
  then show "unwrapAuditVal v = trim (js_String v)"
    by (cases v) (simp_all add: unwrapAuditVal_def)
next
  assume "scalar v \<and> bare (js_String v)"
  then show "unwrapAuditVal v = js_String v"
    by (cases v) (simp_all add: unwrapAuditVal_def trim_bare)
next
  assume a: "sn_call E (pickActingCreds E session) ''GET'' (journal_path sys_id) JUndefined w
          = (Inr jf, w1)
      \<and> sn_call E (adminCreds E) ''GET'' (audit_path sys_id) JUndefined w1 = (Inr au, w2)
      \<and> fst (activity_handler E session table sys_id w) = Json 200 body
      \<and> field au ''result'' = JArr rows \<and> r \<in> set rows
      \<and> fieldname_lc r = Inr fl \<and> fl \<noteq> ''work_notes'' \<and> fl \<noteq> ''comments''
      \<and> (fl = ''incident_state'' \<longrightarrow>
            \<not> (primitive (field r ''sys_created_on'')
                \<and> (\<exists>x \<in> set rows. fieldname_lc x = Inr ''state''
                      \<and> field x ''sys_created_on'' = field r ''sys_created_on'')))"
  let ?head = "''['' @ js_String (field r ''sys_created_on'') @ ''] ''
                   @ js_String (field r ''sys_created_by'') @ '' '' @ DASH @ '' FIELD'' @ NL
                   @ (if fl = ''incident_state'' then ''state''
                      else js_String (js_or (field r ''fieldname'') (JStr [])))
                   @ '': ''"
  from a have "\<exists>narrative pre post ov nv wr wr'.
           body = JObj [(''ok'', JBool True), (''result'', JStr narrative)]
         \<and> resolve_names E fl (unwrapAuditVal (field r ''oldvalue''))
                   (unwrapAuditVal (field r ''newvalue'')) wr = ((ov, nv), wr')
         \<and> narrative = pre @ ''['' @ js_String (field r ''sys_created_on'') @ ''] ''
               @ js_String (field r ''sys_created_by'') @ '' '' @ DASH @ '' FIELD'' @ NL
               @ (if fl = ''incident_state'' then ''state''
                  else js_String (js_or (field r ''fieldname'') (JStr [])))
               @ '': '' @ js_String ov @ ARROW @ js_String nv
               @ cont_by (field r ''sys_created_by'') @ post"
    by (intro shown_line [where E = E and session = session and sys_id = sys_id and w = w
          and table = table and jf = jf and ?w1.0 = w1 and au = au and ?w2.0 = w2
          and rows = rows and r = r and fl = fl and body = body]) simp_all
  then obtain narrative pre post ov nv wr wr' where
    body: "body = JObj [(''ok'', JBool True), (''result'', JStr narrative)]"
    and rn: "resolve_names E fl (unwrapAuditVal (field r ''oldvalue''))
                   (unwrapAuditVal (field r ''newvalue'')) wr = ((ov, nv), wr')"
    and line: "narrative = pre @ ?head @ js_String ov @ ARROW @ js_String nv
               @ cont_by (field r ''sys_created_by'') @ post"
    by auto
  have old: "\<exists>pre nv post. narrative = pre @ ?head @ DASH @ ARROW @ nv
               @ cont_by (field r ''sys_created_by'') @ post"
    if "empty_value (field r ''oldvalue'')"
  proof -
    have "ov = JStr DASH"
      using resolve_names_old_empty [of E fl "unwrapAuditVal (field r ''newvalue'')" wr] rn
      by (simp add: unwrap_empty [OF that])
    with line show ?thesis by auto
  qed
  have new: "\<exists>pre ov post. narrative = pre @ ?head @ ov @ ARROW @ DASH
               @ cont_by (field r ''sys_created_by'') @ post"
    if "empty_value (field r ''newvalue'')"
  proof -
    have "nv = JStr DASH"
      using resolve_names_new_empty [of E fl "unwrapAuditVal (field r ''oldvalue'')" wr] rn
      by (simp add: unwrap_empty [OF that])
    with line show ?thesis by auto
  qed
  from body old new
  show "\<exists>narrative.
             body = JObj [(''ok'', JBool True), (''result'', JStr narrative)]
           \<and> (empty_value (field r ''oldvalue'') \<longrightarrow>
                (\<exists>pre nv post. narrative =
                   pre @ ''['' @ js_String (field r ''sys_created_on'') @ ''] ''
                   @ js_String (field r ''sys_created_by'') @ '' '' @ DASH @ '' FIELD'' @ NL
                   @ (if fl = ''incident_state'' then ''state''
                      else js_String (js_or (field r ''fieldname'') (JStr [])))
                   @ '': '' @ DASH @ ARROW @ nv @ cont_by (field r ''sys_created_by'') @ post))
           \<and> (empty_value (field r ''newvalue'') \<longrightarrow>
                (\<exists>pre ov post. narrative =
                   pre @ ''['' @ js_String (field r ''sys_created_on'') @ ''] ''
                   @ js_String (field r ''sys_created_by'') @ '' '' @ DASH @ '' FIELD'' @ NL
                   @ (if fl = ''incident_state'' then ''state''
                      else js_String (js_or (field r ''fieldname'') (JStr [])))
                   @ '': '' @ ov @ ARROW @ DASH @ cont_by (field r ''sys_created_by'') @ post))"
    by (intro exI [of _ narrative]) simp
qed

theorem unwrap_scalar_trimmed_witness:
  "unwrapAuditVal (JStr ''In Progress'') = ''In Progress''
   \<and> fst (activity_handler feeds_env jdoe ''incident'' incident_id start)
       = Json 200 (JObj [(''ok'', JBool True),
                         (''result'', JStr (join NL (map render_entry demo_entries)))])
   \<and> (\<exists>pre nv post. join NL (map render_entry demo_entries)
         = pre @ ''[2024-05-01 09:00:00] jdoe '' @ DASH @ '' FIELD'' @ NL
           @ ''priority: '' @ DASH @ ARROW @ nv @ '' #Cont. by jdoe'' @ post)
   \<and> (\<exists>pre ov post. join NL (map render_entry demo_entries)
         = pre @ ''[2024-05-01 11:00:00] asmith '' @ DASH @ '' FIELD'' @ NL
           @ ''state: '' @ ov @ ARROW @ DASH @ '' #Cont. by asmith'' @ post)"
proof -
  let ?rows = "[late_alias_row, state_row, alias_row, first_row]"
  let ?body = "JObj [(''ok'', JBool True),
                     (''result'', JStr (join NL (map render_entry demo_entries)))]"
  have plain: "scalar (JStr ''In Progress'')" "bare (js_String (JStr ''In Progress''))"
    "js_String (JStr ''In Progress'') = ''In Progress''"
    by code_simp+
  have rows: "field audit_feed ''result'' = JArr ?rows"
    by (simp add: audit_feed_def field_def)
  have first: "fieldname_lc first_row = Inr ''priority''"
    "empty_value (field first_row ''oldvalue'')"
    "js_String (field first_row ''sys_created_on'') = ''2024-05-01 09:00:00''"
    "js_String (field first_row ''sys_created_by'') = ''jdoe''"
    "js_String (js_or (field first_row ''fieldname'') (JStr [])) = ''priority''"
    by code_simp+
  have late: "empty_value (field late_alias_row ''newvalue'')"
    "js_String (field late_alias_row ''sys_created_on'') = ''2024-05-01 11:00:00''"
    "js_String (field late_alias_row ''sys_created_by'') = ''asmith''"
    by code_simp+
  have alone: "\<not> (primitive (field late_alias_row ''sys_created_on'')
                  \<and> (\<exists>x \<in> set ?rows. fieldname_lc x = Inr ''state''
                        \<and> field x ''sys_created_on'' = field late_alias_row ''sys_created_on''))"
    by (simp add: rows_kinds rows_ts first(1))
  note inst = unwrap_scalar_trimmed [where v = "JStr ''In Progress''" and E = feeds_env
        and session = jdoe and sys_id = incident_id and w = start and jf = journal_feed
        and ?w1.0 = after_journal and au = audit_feed and ?w2.0 = after_audit
        and table = "''incident''" and body = ?body and rows = ?rows and r = first_row
        and fl = "''priority''"]
  have a: "unwrapAuditVal (JStr ''In Progress'') = ''In Progress''"
    using inst [THEN conjunct2, THEN conjunct1] plain by simp
  have b: "\<exists>narrative. ?body = JObj [(''ok'', JBool True), (''result'', JStr narrative)]
         \<and> (\<exists>pre nv post. narrative
               = pre @ ''['' @ ''2024-05-01 09:00:00'' @ ''] '' @ ''jdoe'' @ '' '' @ DASH
                 @ '' FIELD'' @ NL @ ''priority'' @ '': '' @ DASH @ ARROW @ nv
                 @ cont_by (field first_row ''sys_created_by'') @ post)"
    using inst [THEN conjunct2, THEN conjunct2] demo_calls demo_reply rows first
    by simp
  have c: "\<exists>narrative. ?body = JObj [(''ok'', JBool True), (''result'', JStr narrative)]
         \<and> (\<exists>pre ov post. narrative
               = pre @ ''['' @ ''2024-05-01 11:00:00'' @ ''] '' @ ''asmith'' @ '' '' @ DASH
                 @ '' FIELD'' @ NL @ ''state'' @ '': '' @ ov @ ARROW @ DASH
                 @ cont_by (field late_alias_row ''sys_created_by'') @ post)"
    using unwrap_scalar_trimmed [where v = "JStr ''In Progress''" and E = feeds_env
        and session = jdoe and sys_id = incident_id and w = start and jf = journal_feed
        and ?w1.0 = after_journal and au = audit_feed and ?w2.0 = after_audit
        and table = "''incident''" and body = ?body and rows = ?rows and r = late_alias_row
        and fl = "''incident_state''", THEN conjunct2, THEN conjunct2]
      demo_calls demo_reply rows rows_kinds(3) late alone
    by simp
  have by1: "cont_by (field first_row ''sys_created_by'') = '' #Cont. by jdoe''"
    and by2: "cont_by (field late_alias_row ''sys_created_by'') = '' #Cont. by asmith''"
    by code_simp+
  from b have b': "\<exists>pre nv post. join NL (map render_entry demo_entries)
         = pre @ ''[2024-05-01 09:00:00] jdoe '' @ DASH @ '' FIELD'' @ NL
           @ ''priority: '' @ DASH @ ARROW @ nv @ '' #Cont. by jdoe'' @ post"
    unfolding by1 by simp
  from c have c': "\<exists>pre ov post. join NL (map render_entry demo_entries)
         = pre @ ''[2024-05-01 11:00:00] asmith '' @ DASH @ '' FIELD'' @ NL
           @ ''state: '' @ ov @ ARROW @ DASH @ '' #Cont. by asmith'' @ post"
    unfolding by2 by simp
  from a demo_reply b' c' show ?thesis by blast
qed

text \<open>
  The claim as stated says that the string form is returned unchanged. A string with
  white space around it is not.
\<close>

theorem unwrap_scalar_unchanged_counterexample:
  "scalar (JStr '' open '') \<and> unwrapAuditVal (JStr '' open '') = ''open''
   \<and> unwrapAuditVal (JStr '' open '') \<noteq> js_String (JStr '' open '')"
  by code_simp

section \<open>Activity: newest first\<close>




section \<open>Update: one patch for the fields, one for the journal\<close>

lemma healthy_call:
  assumes "healthy E"
  shows "sn_call E u m p b w
         = (Inr (reply_data E (calls w @ [mk_request E u m p b])),
            fetched E (mk_request E u m p b) w)"
    and "\<not> nullish (reply_data E h)"
proof -
  from assms obtain res where
    "upstream E (calls w @ [mk_request E u m p b]) = Responded res" "accepted res"
    unfolding healthy_def by blast
  then show "sn_call E u m p b w
         = (Inr (reply_data E (calls w @ [mk_request E u m p b])),
            fetched E (mk_request E u m p b) w)"
    using sn_call_accepted by (simp add: reply_data_def)
  from assms obtain res' where "upstream E h = Responded res'" "\<not> nullish (res_data res')"
    unfolding healthy_def by blast
  then show "\<not> nullish (reply_data E h)" by (simp add: reply_data_def)
qed

lemma trim_checking_now: "trim ''checking now'' = ''checking now''"
  by code_simp

lemma stamp_checking_now:
  "stamp (JStr ''jdoe'') ''checking now'' = ''checking now'' @ NL @ ''#Cont. by jdoe''"
  by (simp add: stamp_def trim_checking_now)

text \<open>
  C4. The body \<^verbatim>\<open>{state: "2", work_notes: "checking now"}\<close>, sent by a session whose
  contributor label is \<^verbatim>\<open>jdoe\<close>, to an upstream that accepts every request: after the
  read of the current record the handler makes exactly two requests, a \<^verbatim>\<open>PATCH\<close> with
  \<^verbatim>\<open>{state: "2"}\<close> and a \<^verbatim>\<open>PATCH\<close> in display-value mode with the note followed by
  a new line and \<^verbatim>\<open>#Cont. by jdoe\<close>, and replies with success.
\<close>

theorem update_two_patches:
  assumes "healthy E" and "contributorFromSession session = JStr ''jdoe''"
  shows "fst (update_handler E session table sys_id update_body w)
           = Json 200 (JObj [(''ok'', JBool True), (''result'', JBool True)])
       \<and> calls (snd (update_handler E session table sys_id update_body w))
           = calls w @
             [mk_request E (pickActingCreds E session) ''GET''
                (record_path table sys_id
                   @ ''?sysparm_display_value=all&sysparm_fields=sys_id,number,short_description,assigned_to,assignment_group,state,priority,impact,urgency'')
                JUndefined,
              mk_request E (pickActingCreds E session) ''PATCH'' (record_path table sys_id)
                (JObj [(''state'', JStr ''2'')]),
              mk_request E (pickActingCreds E session) ''PATCH''
                (record_path table sys_id @ ''?sysparm_input_display_value=true'')
                (JObj [(''work_notes'', JStr (''checking now'' @ NL @ ''#Cont. by jdoe''))])]"
proof -
  have body: "js_or update_body (JObj []) = update_body"
    by (simp add: js_or_def update_body_def)
  have fields: "field update_body ''state'' = JStr ''2''"
    "field update_body ''work_notes'' = JStr ''checking now''"
    "field update_body ''impact'' = JUndefined" "field update_body ''urgency'' = JUndefined"
    "field update_body ''priority'' = JUndefined" "field update_body ''assigned_to'' = JUndefined"
    "field update_body ''assignment_group'' = JUndefined"
    "field update_body ''short_description'' = JUndefined"
    "field update_body ''description'' = JUndefined" "field update_body ''comments'' = JUndefined"
    by (simp_all add: field_def update_body_def)
  have journal: "note_prop (JStr ''jdoe'') ''work_notes'' (journal_input (JStr ''checking now''))
        @ note_prop (JStr ''jdoe'') ''comments'' (journal_input JUndefined)
      = [(''work_notes'', JStr (''checking now'' @ NL @ ''#Cont. by jdoe''))]"
    by (simp add: note_prop_def journal_input_def trim_checking_now stamp_checking_now)
  show ?thesis
    unfolding update_handler_def Let_def body fields assms(2) journal
    by (simp add: healthy_call [OF assms(1)] get_def resolve_if_given_def
          norm_def spread_if_def)
qed

theorem update_two_patches_witness:
  "healthy steady_env \<and> contributorFromSession jdoe = JStr ''jdoe''
   \<and> calls (snd (update_handler steady_env jdoe ''incident'' incident_id update_body start))
     = [mk_request steady_env (adminCreds steady_env) ''GET''
          (record_path ''incident'' incident_id
             @ ''?sysparm_display_value=all&sysparm_fields=sys_id,number,short_description,assigned_to,assignment_group,state,priority,impact,urgency'')
          JUndefined,
        mk_request steady_env (adminCreds steady_env) ''PATCH''
          (record_path ''incident'' incident_id) (JObj [(''state'', JStr ''2'')]),
        mk_request steady_env (adminCreds steady_env) ''PATCH''
          (record_path ''incident'' incident_id @ ''?sysparm_input_display_value=true'')
          (JObj [(''work_notes'', JStr (''checking now'' @ NL @ ''#Cont. by jdoe''))])]"
proof -
  have h: "healthy steady_env"
    by (simp add: healthy_def steady_env_def demo_env_def answer_def accepted_def res_ok_def
          res_data_def oget_def nullish_def field_def)
  have c: "contributorFromSession jdoe = JStr ''jdoe''" by code_simp
  have p: "pickActingCreds steady_env jdoe = adminCreds steady_env" by code_simp
  show ?thesis
    using h c update_two_patches [OF h c, of "''incident''" incident_id start]
    by (simp add: p start_def)
qed

end

